theory Spec2Isabelle
  imports Main "HOL-Library.Word"
begin

section \<open>The nRF9160 TCP client sample (samples/nrf9160/tcp_client/src/main.c)\<close>

text \<open>
  The sample is sequential glue over three external services: the LTE link control
  library, the BSD socket layer, and the kernel's delayed work and semaphore. The
  embedding below translates every function of \<^verbatim>\<open>main.c\<close> into a state-passing
  HOL function. The file-scope variables of the C file are the fields of the record
  \<open>state\<close>; every call that leaves the file is appended to the field \<open>trace\<close>, in
  program order, so that what the program did and in which order can be read off the
  final state. What the external services answer is not decided by the program: it
  is the record \<open>env\<close>, a parameter of every theorem.

  The C \<^verbatim>\<open>int\<close> values of the file (return codes, descriptors, errno) are never used
  in arithmetic that can overflow, so they are modelled as \<open>int\<close>; bytes are
  \<open>8 word\<close>, the port in network order is a \<open>16 word\<close>.
\<close>

subsection \<open>Build-time configuration\<close>

text \<open>
  The \<^verbatim>\<open>CONFIG_*\<close> symbols come from Kconfig and are not part of \<^verbatim>\<open>main.c\<close>; they are
  taken as a parameter. \<^verbatim>\<open>IS_ENABLED(CONFIG_X)\<close> and \<^verbatim>\<open>defined(CONFIG_X)\<close> read the
  boolean fields.
\<close>

record config =
  CONFIG_TCP_DATA_UPLOAD_SIZE_BYTES :: nat
  CONFIG_TCP_DATA_UPLOAD_FREQUENCY_SECONDS :: int
  CONFIG_TCP_SERVER_ADDRESS_STATIC :: string
  CONFIG_TCP_SERVER_PORT :: int
  CONFIG_LTE_LINK_CONTROL :: bool
  CONFIG_LTE_AUTO_INIT_AND_CONNECT :: bool
  CONFIG_TCP_PSM_ENABLE :: bool
  CONFIG_TCP_EDRX_ENABLE :: bool
  CONFIG_TCP_RAI_ENABLE :: bool

definition TCP_IP_HEADER_SIZE :: int where
  "TCP_IP_HEADER_SIZE = 28"

subsection \<open>Data of the external interfaces\<close>

datatype k_timeout = K_NO_WAIT | K_FOREVER | K_SECONDS int

datatype sa_family = AF_UNSPEC | AF_INET

record sockaddr_in =
  sin_family :: sa_family
  sin_port :: "16 word"
  sin_addr :: "32 word"

datatype lte_lc_nw_reg_status =
    LTE_LC_NW_REG_NOT_REGISTERED
  | LTE_LC_NW_REG_REGISTERED_HOME
  | LTE_LC_NW_REG_SEARCHING
  | LTE_LC_NW_REG_REGISTRATION_DENIED
  | LTE_LC_NW_REG_UNKNOWN
  | LTE_LC_NW_REG_REGISTERED_ROAMING
  | LTE_LC_NW_REG_REGISTERED_EMERGENCY
  | LTE_LC_NW_REG_UICC_FAIL

datatype lte_lc_rrc_mode = LTE_LC_RRC_MODE_IDLE | LTE_LC_RRC_MODE_CONNECTED

text \<open>
  \<^verbatim>\<open>struct lte_lc_evt\<close> is a tag with a union; each constructor carries the union
  member that its case of \<^verbatim>\<open>lte_handler\<close> reads: the registration status; the PSM
  \<^verbatim>\<open>tau\<close> and \<^verbatim>\<open>active_time\<close>; the eDRX \<^verbatim>\<open>edrx\<close> and \<^verbatim>\<open>ptw\<close> (two floats, kept as
  their 32 bits, since the handler only passes them to \<^verbatim>\<open>snprintf\<close>); the RRC mode;
  the cell \<^verbatim>\<open>id\<close> and \<^verbatim>\<open>tac\<close>. \<open>LTE_LC_EVT_OTHER\<close> stands for every other tag value,
  which the handler meets in its \<^verbatim>\<open>default\<close> case.
\<close>

datatype lte_lc_evt =
    LTE_LC_EVT_NW_REG_STATUS lte_lc_nw_reg_status
  | LTE_LC_EVT_PSM_UPDATE int int
  | LTE_LC_EVT_EDRX_UPDATE "32 word" "32 word"
  | LTE_LC_EVT_RRC_UPDATE lte_lc_rrc_mode
  | LTE_LC_EVT_CELL_UPDATE int int
  | LTE_LC_EVT_OTHER nat

subsection \<open>The trace of external calls\<close>

datatype printk_arg = ArgInt int | ArgStr string

datatype event =
    Printk string "printk_arg list"
  | Socket_call sa_family
  | Connect_call int sockaddr_in
  | Send_call int "8 word list" nat int
  | Close_call int
  | Inet_pton_call sa_family string
  | Work_init
  | Work_submit k_timeout
  | Work_fired
  | Sem_give
  | Sem_take k_timeout
  | Psm_req bool
  | Edrx_req bool
  | Rai_req bool
  | Init_and_connect_async

fun is_printk :: "event \<Rightarrow> bool" where
  "is_printk (Printk f a) = True"
| "is_printk e = False"

fun is_send :: "event \<Rightarrow> bool" where
  "is_send (Send_call fd b n fl) = True"
| "is_send e = False"

fun is_submit :: "event \<Rightarrow> bool" where
  "is_submit (Work_submit d) = True"
| "is_submit e = False"

fun is_close :: "event \<Rightarrow> bool" where
  "is_close (Close_call fd) = True"
| "is_close e = False"

subsection \<open>The environment\<close>

text \<open>
  What the external services answer. A socket-layer answer is a pair of the returned
  value and the value left in \<^verbatim>\<open>errno\<close> when the call fails. \<open>send_rets\<close> lists the
  answers of \<^verbatim>\<open>send\<close> for the successive firings of the work item, \<open>lte_events\<close> the
  events that the link control library delivers to the registered handler.
  \<open>snprintf_edrx\<close> is libc's rendering of the eDRX log line: the returned length and
  the bytes left in the 60-byte buffer.
\<close>

record env =
  socket_ret :: "int \<times> int"
  connect_ret :: "int \<times> int"
  send_rets :: "(int \<times> int) list"
  psm_ret :: int
  edrx_ret :: int
  rai_ret :: int
  init_and_connect_ret :: int
  inet_pton4 :: "string \<Rightarrow> 32 word option"
  snprintf_edrx :: "32 word \<Rightarrow> 32 word \<Rightarrow> int \<times> string"
  lte_events :: "lte_lc_evt list"

subsection \<open>The program state\<close>

text \<open>
  \<open>client_fd\<close>, \<open>host_addr\<close>, \<open>lte_connected\<close> (the count of the semaphore defined by
  \<^verbatim>\<open>K_SEM_DEFINE(lte_connected, 0, 1)\<close>) and the delayed work item
  \<open>server_transmission_work\<close> (whether its handler is set, and the delay of its
  outstanding submission if there is one) are the statics of the file. \<open>errno\<close> and
  \<open>open_fds\<close> (the descriptors that the socket layer has handed out and not yet
  closed) belong to the socket layer.
\<close>

record state =
  client_fd :: int
  host_addr :: sockaddr_in
  lte_connected :: nat
  work_handler_set :: bool
  work_pending :: "k_timeout option"
  errno :: int
  open_fds :: "int set"
  trace :: "event list"

definition init_state :: state where
  "init_state = \<lparr>client_fd = 0,
     host_addr = \<lparr>sin_family = AF_UNSPEC, sin_port = 0, sin_addr = 0\<rparr>,
     lte_connected = 0, work_handler_set = False, work_pending = None,
     errno = 0, open_fds = {}, trace = []\<rparr>"

definition emit :: "event \<Rightarrow> state \<Rightarrow> state" where
  "emit e s = s\<lparr>trace := trace s @ [e]\<rparr>"

definition printk :: "string \<Rightarrow> printk_arg list \<Rightarrow> state \<Rightarrow> state" where
  "printk fmt args s = emit (Printk fmt args) s"

text \<open>The events that a run from \<open>s\<close> to \<open>s'\<close> appended to the trace.\<close>

definition new_events :: "state \<Rightarrow> state \<Rightarrow> event list" where
  "new_events s s' = drop (length (trace s)) (trace s')"

subsection \<open>The external services\<close>

text \<open>
  The socket layer, as POSIX describes it. \<^verbatim>\<open>socket\<close> returns what the environment
  answers; a non-negative answer is a new open descriptor, a negative one sets
  \<^verbatim>\<open>errno\<close>. \<^verbatim>\<open>connect\<close> and \<^verbatim>\<open>send\<close> return the answer and set \<^verbatim>\<open>errno\<close> when it is
  negative. \<^verbatim>\<open>close\<close> releases an open descriptor and returns 0; on a descriptor that
  is not open it returns -1 with \<^verbatim>\<open>errno = EBADF\<close> and releases nothing.
\<close>

definition EBADF :: int where
  "EBADF = 9"

definition socket_call :: "sa_family \<Rightarrow> int \<times> int \<Rightarrow> state \<Rightarrow> int \<times> state" where
  "socket_call fam r s =
     (let s1 = emit (Socket_call fam) s
      in if fst r < 0 then (fst r, s1\<lparr>errno := snd r\<rparr>)
         else (fst r, s1\<lparr>open_fds := insert (fst r) (open_fds s1)\<rparr>))"

definition connect_call :: "int \<Rightarrow> sockaddr_in \<Rightarrow> int \<times> int \<Rightarrow> state \<Rightarrow> int \<times> state" where
  "connect_call fd addr r s =
     (let s1 = emit (Connect_call fd addr) s
      in if fst r < 0 then (fst r, s1\<lparr>errno := snd r\<rparr>) else (fst r, s1))"

definition send_call ::
  "int \<Rightarrow> 8 word list \<Rightarrow> nat \<Rightarrow> int \<Rightarrow> int \<times> int \<Rightarrow> state \<Rightarrow> int \<times> state" where
  "send_call fd buf len flags r s =
     (let s1 = emit (Send_call fd buf len flags) s
      in if fst r < 0 then (fst r, s1\<lparr>errno := snd r\<rparr>) else (fst r, s1))"

definition close_call :: "int \<Rightarrow> state \<Rightarrow> int \<times> state" where
  "close_call fd s =
     (let s1 = emit (Close_call fd) s
      in if fd \<in> open_fds s1 then (0, s1\<lparr>open_fds := open_fds s1 - {fd}\<rparr>)
         else (- 1, s1\<lparr>errno := EBADF\<rparr>))"

text \<open>
  \<^verbatim>\<open>inet_pton\<close> writes the parsed address to its destination when the text parses and
  leaves the destination alone otherwise; it returns 1 or 0 accordingly.
\<close>

definition inet_pton_call :: "env \<Rightarrow> string \<Rightarrow> state \<Rightarrow> int \<times> state" where
  "inet_pton_call en txt s =
     (let s1 = emit (Inet_pton_call AF_INET txt) s
      in case inet_pton4 en txt of
           None \<Rightarrow> (0, s1)
         | Some a \<Rightarrow> (1, s1\<lparr>host_addr := (host_addr s1)\<lparr>sin_addr := a\<rparr>\<rparr>))"

text \<open>\<^verbatim>\<open>htons\<close> on the little-endian target swaps the two bytes.\<close>

definition htons :: "16 word \<Rightarrow> 16 word" where
  "htons x = or (push_bit 8 x) (drop_bit 8 x)"

text \<open>
  The kernel. \<^verbatim>\<open>k_sem_give\<close> increments the count up to the limit 1 of
  \<open>lte_connected\<close>. \<^verbatim>\<open>k_delayed_work_submit\<close> leaves the work item with one outstanding
  submission.
\<close>

definition k_sem_give :: "state \<Rightarrow> state" where
  "k_sem_give s = (emit Sem_give s)\<lparr>lte_connected := min (lte_connected s + 1) 1\<rparr>"

definition k_delayed_work_init :: "state \<Rightarrow> state" where
  "k_delayed_work_init s = (emit Work_init s)\<lparr>work_handler_set := True\<rparr>"

definition k_delayed_work_submit :: "k_timeout \<Rightarrow> state \<Rightarrow> state" where
  "k_delayed_work_submit d s = (emit (Work_submit d) s)\<lparr>work_pending := Some d\<rparr>"

text \<open>The link control requests return what the environment answers.\<close>

definition lte_lc_psm_req :: "env \<Rightarrow> bool \<Rightarrow> state \<Rightarrow> int \<times> state" where
  "lte_lc_psm_req en b s = (psm_ret en, emit (Psm_req b) s)"

definition lte_lc_edrx_req :: "env \<Rightarrow> bool \<Rightarrow> state \<Rightarrow> int \<times> state" where
  "lte_lc_edrx_req en b s = (edrx_ret en, emit (Edrx_req b) s)"

definition lte_lc_rai_req :: "env \<Rightarrow> bool \<Rightarrow> state \<Rightarrow> int \<times> state" where
  "lte_lc_rai_req en b s = (rai_ret en, emit (Rai_req b) s)"

definition lte_lc_init_and_connect_async :: "env \<Rightarrow> state \<Rightarrow> int \<times> state" where
  "lte_lc_init_and_connect_async en s = (init_and_connect_ret en, emit Init_and_connect_async s)"

subsection \<open>The periodic transmission work\<close>

text \<open>
  \<^verbatim>\<open>char buffer[N] = {"\0"}\<close>: the elements of a character array initialised by a
  string literal are the characters of the literal, as far as there is room, and
  zero from there on (the terminating null included). \<open>lit\<close> is the list of the
  literal's written characters.
\<close>

definition char_array_init :: "nat \<Rightarrow> 8 word list \<Rightarrow> 8 word list" where
  "char_array_init n lit = take n lit @ replicate (n - length lit) 0"

definition server_transmission_work_fn :: "config \<Rightarrow> int \<times> int \<Rightarrow> state \<Rightarrow> state" where
  "server_transmission_work_fn cfg r s =
     (let buffer = char_array_init (CONFIG_TCP_DATA_UPLOAD_SIZE_BYTES cfg) [0];
          s1 = printk ''Transmitting TCP/IP payload of %d bytes to the ''
                 [ArgInt (int (CONFIG_TCP_DATA_UPLOAD_SIZE_BYTES cfg) + TCP_IP_HEADER_SIZE)] s;
          s2 = printk ''IP address %s, port number %d\<newline>''
                 [ArgStr (CONFIG_TCP_SERVER_ADDRESS_STATIC cfg),
                  ArgInt (CONFIG_TCP_SERVER_PORT cfg)] s1;
          (err, s3) = send_call (client_fd s2) buffer (length buffer) 0 r s2
      in if err < 0 then
           (let s4 = printk ''Failed to transmit TCP packet, %d\<newline>'' [ArgInt (errno s3)] s3;
                (u, s5) = close_call (client_fd s4) s4
            in s5)
         else
           k_delayed_work_submit
             (K_SECONDS (CONFIG_TCP_DATA_UPLOAD_FREQUENCY_SECONDS cfg)) s3)"

definition work_init :: "state \<Rightarrow> state" where
  "work_init s = k_delayed_work_init s"

subsection \<open>The LTE event handler and the link configuration\<close>

fun lte_handler :: "env \<Rightarrow> lte_lc_evt \<Rightarrow> state \<Rightarrow> state" where
  "lte_handler en (LTE_LC_EVT_NW_REG_STATUS st) s =
     (if st \<noteq> LTE_LC_NW_REG_REGISTERED_HOME \<and> st \<noteq> LTE_LC_NW_REG_REGISTERED_ROAMING
      then s
      else k_sem_give
             (printk ''Network registration status: %s\<newline>''
                [ArgStr (if st = LTE_LC_NW_REG_REGISTERED_HOME
                         then ''Connected - home network''
                         else ''Connected - roaming\<newline>'')] s))"
| "lte_handler en (LTE_LC_EVT_PSM_UPDATE tau active_time) s =
     printk ''PSM parameter update: TAU: %d, Active time: %d\<newline>''
       [ArgInt tau, ArgInt active_time] s"
| "lte_handler en (LTE_LC_EVT_EDRX_UPDATE edrx ptw) s =
     (let (len, log_buf) = snprintf_edrx en edrx ptw
      in if len > 0 then printk ''%s\<newline>'' [ArgStr log_buf] s else s)"
| "lte_handler en (LTE_LC_EVT_RRC_UPDATE m) s =
     printk ''RRC mode: %s\<newline>''
       [ArgStr (if m = LTE_LC_RRC_MODE_CONNECTED then ''Connected'' else ''Idle\<newline>'')] s"
| "lte_handler en (LTE_LC_EVT_CELL_UPDATE cid tac) s =
     printk ''LTE cell changed: Cell ID: %d, Tracking area: %d\<newline>''
       [ArgInt cid, ArgInt tac] s"
| "lte_handler en (LTE_LC_EVT_OTHER n) s = s"

definition configure_low_power :: "config \<Rightarrow> env \<Rightarrow> state \<Rightarrow> int \<times> state" where
  "configure_low_power cfg en s =
     (let (err, s1) =
            (if CONFIG_TCP_PSM_ENABLE cfg then
               (let (e, t) = lte_lc_psm_req en True s
                in (e, if e \<noteq> 0 then printk ''lte_lc_psm_req, error: %d\<newline>'' [ArgInt e] t else t))
             else
               (let (e, t) = lte_lc_psm_req en False s
                in (e, if e \<noteq> 0 then printk ''lte_lc_psm_req, error: %d\<newline>'' [ArgInt e] t else t)));
          (err, s2) =
            (if CONFIG_TCP_EDRX_ENABLE cfg then
               (let (e, t) = lte_lc_edrx_req en True s1
                in (e, if e \<noteq> 0 then printk ''lte_lc_edrx_req, error: %d\<newline>'' [ArgInt e] t else t))
             else
               (let (e, t) = lte_lc_edrx_req en False s1
                in (e, if e \<noteq> 0 then printk ''lte_lc_edrx_req, error: %d\<newline>'' [ArgInt e] t else t)));
          (err, s3) =
            (if CONFIG_TCP_RAI_ENABLE cfg then
               (let (e, t) = lte_lc_rai_req en True s2
                in (e, if e \<noteq> 0 then printk ''lte_lc_rai_req, error: %d\<newline>'' [ArgInt e] t else t))
             else (err, s2))
      in (err, s3))"

definition modem_configure :: "config \<Rightarrow> env \<Rightarrow> state \<Rightarrow> state" where
  "modem_configure cfg en s =
     (if CONFIG_LTE_AUTO_INIT_AND_CONNECT cfg then s
      else
        (let (err, s1) = lte_lc_init_and_connect_async en s
         in if err \<noteq> 0 then printk ''Modem configuration, error: %d\<newline>'' [ArgInt err] s1
            else s1))"

text \<open>
  \<^verbatim>\<open>k_sem_take(&lte_connected, K_FOREVER)\<close>: the caller sleeps until the count is
  positive and then takes it. While it sleeps, the link control library calls the
  handler \<open>h\<close> on the events \<open>evs\<close> that it delivers, one after the other. When the
  events are used up and the count is still zero, the caller sleeps for ever: the
  result is \<open>False\<close> with the state reached.
\<close>

fun k_sem_take_forever ::
  "(lte_lc_evt \<Rightarrow> state \<Rightarrow> state) \<Rightarrow> lte_lc_evt list \<Rightarrow> state \<Rightarrow> bool \<times> state" where
  "k_sem_take_forever h [] s =
     (if lte_connected s > 0 then (True, s\<lparr>lte_connected := lte_connected s - 1\<rparr>)
      else (False, s))"
| "k_sem_take_forever h (e # evs) s =
     (if lte_connected s > 0 then (True, s\<lparr>lte_connected := lte_connected s - 1\<rparr>)
      else k_sem_take_forever h evs (h e s))"

subsection \<open>The connection\<close>

definition client_disconnect :: "state \<Rightarrow> state" where
  "client_disconnect s = snd (close_call (client_fd s) s)"

definition client_init :: "config \<Rightarrow> env \<Rightarrow> state \<Rightarrow> int \<times> state" where
  "client_init cfg en s =
     (let s1 = s\<lparr>host_addr := (host_addr s)\<lparr>sin_family := AF_INET\<rparr>\<rparr>;
          s2 = s1\<lparr>host_addr :=
                 (host_addr s1)\<lparr>sin_port := htons (word_of_int (CONFIG_TCP_SERVER_PORT cfg))\<rparr>\<rparr>;
          (u, s3) = inet_pton_call en (CONFIG_TCP_SERVER_ADDRESS_STATIC cfg) s2
      in (0, s3))"

definition client_connect :: "config \<Rightarrow> env \<Rightarrow> state \<Rightarrow> int \<times> state" where
  "client_connect cfg en s =
     (let (fd, s1) = socket_call AF_INET (socket_ret en) s;
          s2 = s1\<lparr>client_fd := fd\<rparr>
      in if client_fd s2 < 0 then
           (0, printk ''Failed to create TCP socket: %d\<newline>'' [ArgInt (errno s2)] s2)
         else
           (let (err, s3) = connect_call (client_fd s2) (host_addr s2) (connect_ret en) s2
            in if err < 0 then
                 (let s4 = printk ''Connect failed : %d\<newline>'' [ArgInt (errno s3)] s3;
                      s5 = client_disconnect s4
                  in (err, s5))
               else
                 (0, printk ''Successfully connected to TCP server: %s on port %d\<newline>''
                       [ArgStr (CONFIG_TCP_SERVER_ADDRESS_STATIC cfg),
                        ArgInt (CONFIG_TCP_SERVER_PORT cfg)] s3)))"

subsection \<open>main and the work queue\<close>

text \<open>
  \<open>main\<close> either returns or sleeps for ever in \<^verbatim>\<open>k_sem_take\<close>. The handler is known
  to the link control library only once \<^verbatim>\<open>lte_lc_init_and_connect_async(lte_handler)\<close>
  has passed it, so with \<^verbatim>\<open>CONFIG_LTE_AUTO_INIT_AND_CONNECT\<close> no event reaches it.
\<close>

datatype main_outcome = Returned | Blocked

text \<open>
  The block of \<^verbatim>\<open>main\<close> between \<^verbatim>\<open>#if defined(CONFIG_LTE_LINK_CONTROL)\<close> and its
  \<^verbatim>\<open>#endif\<close>; the result says whether \<^verbatim>\<open>k_sem_take\<close> returned.
\<close>

definition main_lte_link_control :: "config \<Rightarrow> env \<Rightarrow> state \<Rightarrow> bool \<times> state" where
  "main_lte_link_control cfg en s =
     (let (err, s1) = configure_low_power cfg en s;
          s2 = (if err \<noteq> 0 then
                  printk ''Unable to set low power configuration, error: %d\<newline>''
                    [ArgInt err] s1
                else s1);
          s3 = modem_configure cfg en s2
      in k_sem_take_forever (lte_handler en)
           (if CONFIG_LTE_AUTO_INIT_AND_CONNECT cfg then [] else lte_events en)
           (emit (Sem_take K_FOREVER) s3))"

definition main :: "config \<Rightarrow> env \<Rightarrow> state \<Rightarrow> main_outcome \<times> state" where
  "main cfg en s =
     (let s1 = printk ''TCP Client sample has started\<newline>'' [] s;
          s2 = work_init s1;
          (woke, s3) = (if CONFIG_LTE_LINK_CONTROL cfg then main_lte_link_control cfg en s2
                        else (True, s2))
      in if \<not> woke then (Blocked, s3)
         else
           (let (err, s4) = client_init cfg en s3
            in if err \<noteq> 0 then
                 (Returned,
                  printk ''Not able to initialize TCP server connection\<newline>'' [] s4)
               else
                 (let (err, s5) = client_connect cfg en s4
                  in if err \<noteq> 0 then
                       (Returned,
                        printk ''Not able to connect to TCP server %s on port %d\<newline>''
                          [ArgStr (CONFIG_TCP_SERVER_ADDRESS_STATIC cfg),
                           ArgInt (CONFIG_TCP_SERVER_PORT cfg)] s5)
                     else (Returned, k_delayed_work_submit K_NO_WAIT s5))))"

text \<open>
  The system work queue: while the work item has an outstanding submission, the
  queue takes it and calls the handler; each firing gets the next answer of \<^verbatim>\<open>send\<close>.
  A work item with no outstanding submission is never called again. The list bounds
  how many firings are observed.
\<close>

fun work_q_run :: "config \<Rightarrow> (int \<times> int) list \<Rightarrow> state \<Rightarrow> state" where
  "work_q_run cfg [] s = s"
| "work_q_run cfg (r # rs) s =
     (case work_pending s of
        None \<Rightarrow> s
      | Some d \<Rightarrow>
          work_q_run cfg rs
            (server_transmission_work_fn cfg r (emit Work_fired (s\<lparr>work_pending := None\<rparr>))))"

definition system_run :: "config \<Rightarrow> env \<Rightarrow> state" where
  "system_run cfg en = work_q_run cfg (send_rets en) (snd (main cfg en init_state))"

text \<open>
  A monitor on traces: \<open>single_outstanding c tr\<close> reads \<open>tr\<close> from a moment with \<open>c\<close>
  outstanding submissions of the work item and holds when every submission finds
  none outstanding and every firing takes the single outstanding one.
\<close>

fun single_outstanding :: "nat \<Rightarrow> event list \<Rightarrow> bool" where
  "single_outstanding c [] = True"
| "single_outstanding c (Work_submit d # es) = (c = 0 \<and> single_outstanding 1 es)"
| "single_outstanding c (Work_fired # es) = (c = 1 \<and> single_outstanding 0 es)"
| "single_outstanding c (e # es) = single_outstanding c es"

text \<open>The number of outstanding submissions after \<open>tr\<close>, starting from \<open>c\<close>.\<close>

fun outstanding :: "nat \<Rightarrow> event list \<Rightarrow> nat" where
  "outstanding c [] = c"
| "outstanding c (Work_submit d # es) = outstanding (Suc c) es"
| "outstanding c (Work_fired # es) = outstanding (c - 1) es"
| "outstanding c (e # es) = outstanding c es"

text \<open>
  A state is quiet when the work item has no outstanding submission, has never been
  submitted or fired, and nothing has been sent.
\<close>

definition quiet :: "state \<Rightarrow> bool" where
  "quiet s = (work_pending s = None \<and>
     list_all (\<lambda>e. \<not> is_submit e \<and> e \<noteq> Work_fired \<and> \<not> is_send e) (trace s))"

text \<open>The configuration and the environment of the scenario of the specification.\<close>

definition cfg0 :: config where
  "cfg0 = \<lparr>CONFIG_TCP_DATA_UPLOAD_SIZE_BYTES = 10,
     CONFIG_TCP_DATA_UPLOAD_FREQUENCY_SECONDS = 60,
     CONFIG_TCP_SERVER_ADDRESS_STATIC = ''10.0.0.5'',
     CONFIG_TCP_SERVER_PORT = 4321,
     CONFIG_LTE_LINK_CONTROL = True,
     CONFIG_LTE_AUTO_INIT_AND_CONNECT = False,
     CONFIG_TCP_PSM_ENABLE = True,
     CONFIG_TCP_EDRX_ENABLE = False,
     CONFIG_TCP_RAI_ENABLE = False\<rparr>"

definition env0 :: env where
  "env0 = \<lparr>socket_ret = (3, 0), connect_ret = (0, 0),
     send_rets = [(10, 0), (10, 0), (- 1, 104)],
     psm_ret = 0, edrx_ret = 0, rai_ret = 0, init_and_connect_ret = 0,
     inet_pton4 = (\<lambda>t. Some 0x0500000A),
     snprintf_edrx = (\<lambda>e p. (0, [])),
     lte_events = [LTE_LC_EVT_NW_REG_STATUS LTE_LC_NW_REG_SEARCHING,
                   LTE_LC_EVT_RRC_UPDATE LTE_LC_RRC_MODE_CONNECTED,
                   LTE_LC_EVT_NW_REG_STATUS LTE_LC_NW_REG_REGISTERED_HOME]\<rparr>"

text \<open>An environment in which \<^verbatim>\<open>socket\<close> fails (with \<^verbatim>\<open>ENFILE\<close>).\<close>

definition env_socket_fails :: env where
  "env_socket_fails = env0\<lparr>socket_ret := (- 1, 23), send_rets := [(- 1, 9)]\<rparr>"

text \<open>An environment in which \<^verbatim>\<open>connect\<close> fails (with \<^verbatim>\<open>ECONNREFUSED\<close>).\<close>

definition env_connect_fails :: env where
  "env_connect_fails = env0\<lparr>connect_ret := (- 1, 111)\<rparr>"

text \<open>The log line of the initialization-failure branch of \<open>main\<close>.\<close>

definition init_failure_msg :: event where
  "init_failure_msg = Printk ''Not able to initialize TCP server connection\<newline>'' []"

text \<open>
  \<open>extends s s'\<close>: the trace of \<open>s'\<close> continues the trace of \<open>s\<close>, and the continuation
  does not log the initialization failure.
\<close>

definition extends :: "state \<Rightarrow> state \<Rightarrow> bool" where
  "extends s s' = (take (length (trace s)) (trace s') = trace s \<and>
     list_all (\<lambda>e. e \<noteq> init_failure_msg) (new_events s s'))"

text \<open>
  The events that report a registration: network registration status with the
  status "registered, home network" or "registered, roaming".
\<close>

abbreviation registered_evt :: "lte_lc_evt \<Rightarrow> bool" where
  "registered_evt e \<equiv>
     (e = LTE_LC_EVT_NW_REG_STATUS LTE_LC_NW_REG_REGISTERED_HOME \<or>
      e = LTE_LC_EVT_NW_REG_STATUS LTE_LC_NW_REG_REGISTERED_ROAMING)"

text \<open>A trace without its log lines, and a state whose trace has lost them.\<close>

definition control_events :: "event list \<Rightarrow> event list" where
  "control_events tr = filter (\<lambda>e. \<not> is_printk e) tr"

definition erase_logs :: "state \<Rightarrow> state" where
  "erase_logs s = s\<lparr>trace := control_events (trace s)\<rparr>"

section \<open>Lemmas about the embedding\<close>

subsection \<open>One firing of the work item\<close>

lemmas prim_defs = emit_def printk_def socket_call_def connect_call_def send_call_def
  close_call_def inet_pton_call_def k_sem_give_def k_delayed_work_init_def
  k_delayed_work_submit_def lte_lc_psm_req_def lte_lc_edrx_req_def lte_lc_rai_req_def
  lte_lc_init_and_connect_async_def work_init_def

lemma char_array_init_zero: "char_array_init n [0] = replicate n 0"
  by (cases n) (simp_all add: char_array_init_def)

lemma work_fn_trace:
  "trace (server_transmission_work_fn cfg r s) = trace s @
     [Printk ''Transmitting TCP/IP payload of %d bytes to the ''
        [ArgInt (int (CONFIG_TCP_DATA_UPLOAD_SIZE_BYTES cfg) + 28)],
      Printk ''IP address %s, port number %d\<newline>''
        [ArgStr (CONFIG_TCP_SERVER_ADDRESS_STATIC cfg), ArgInt (CONFIG_TCP_SERVER_PORT cfg)],
      Send_call (client_fd s) (replicate (CONFIG_TCP_DATA_UPLOAD_SIZE_BYTES cfg) 0)
        (CONFIG_TCP_DATA_UPLOAD_SIZE_BYTES cfg) 0] @
     (if fst r < 0
      then [Printk ''Failed to transmit TCP packet, %d\<newline>'' [ArgInt (snd r)],
            Close_call (client_fd s)]
      else [Work_submit (K_SECONDS (CONFIG_TCP_DATA_UPLOAD_FREQUENCY_SECONDS cfg))])"
  by (simp add: server_transmission_work_fn_def prim_defs char_array_init_zero
        TCP_IP_HEADER_SIZE_def Let_def split: prod.splits)

lemma work_fn_pending:
  "work_pending (server_transmission_work_fn cfg r s) =
     (if fst r < 0 then work_pending s
      else Some (K_SECONDS (CONFIG_TCP_DATA_UPLOAD_FREQUENCY_SECONDS cfg)))"
  by (simp add: server_transmission_work_fn_def prim_defs Let_def split: prod.splits)

lemma work_fn_open_fds:
  "open_fds (server_transmission_work_fn cfg r s) =
     (if fst r < 0 then open_fds s - {client_fd s} else open_fds s)"
  by (simp add: server_transmission_work_fn_def prim_defs Let_def split: prod.splits)

lemma work_fn_client_fd:
  "client_fd (server_transmission_work_fn cfg r s) = client_fd s"
  by (simp add: server_transmission_work_fn_def prim_defs Let_def split: prod.splits)

lemma new_events_append: "trace s' = trace s @ ev \<Longrightarrow> new_events s s' = ev"
  by (simp add: new_events_def)

lemma single_outstanding_append:
  "single_outstanding c (xs @ ys) =
     (single_outstanding c xs \<and> single_outstanding (outstanding c xs) ys)"
  by (induction c xs rule: single_outstanding.induct) auto

lemma outstanding_append: "outstanding c (xs @ ys) = outstanding (outstanding c xs) ys"
  by (induction c xs rule: outstanding.induct) auto

lemma quiet_single: "quiet s \<Longrightarrow> single_outstanding c (trace s) \<and> outstanding c (trace s) = c"
proof -
  have "list_all (\<lambda>e. \<not> is_submit e \<and> e \<noteq> Work_fired \<and> \<not> is_send e) tr \<Longrightarrow>
        single_outstanding c tr \<and> outstanding c tr = c" for tr
    by (induction c tr rule: single_outstanding.induct) auto
  moreover assume "quiet s"
  ultimately show ?thesis by (simp add: quiet_def)
qed

lemma quiet_lte_handler: "quiet s \<Longrightarrow> quiet (lte_handler en e s)"
  by (cases e) (simp_all add: quiet_def prim_defs split: prod.splits)

lemma quiet_k_sem_take_forever:
  "(\<And>e s. quiet s \<Longrightarrow> quiet (h e s)) \<Longrightarrow> quiet s \<Longrightarrow> quiet (snd (k_sem_take_forever h evs s))"
  by (induction evs arbitrary: s) (simp_all add: quiet_def)

lemma quiet_configure_low_power: "quiet s \<Longrightarrow> quiet (snd (configure_low_power cfg en s))"
  by (simp add: configure_low_power_def quiet_def prim_defs Let_def split: prod.splits)

lemma quiet_modem_configure: "quiet s \<Longrightarrow> quiet (modem_configure cfg en s)"
  by (simp add: modem_configure_def quiet_def prim_defs Let_def split: prod.splits)

lemma quiet_client_init: "quiet s \<Longrightarrow> quiet (snd (client_init cfg en s))"
  by (simp add: client_init_def quiet_def prim_defs Let_def split: prod.splits option.splits)

lemma quiet_client_connect: "quiet s \<Longrightarrow> quiet (snd (client_connect cfg en s))"
  by (simp add: client_connect_def client_disconnect_def quiet_def prim_defs Let_def
        split: prod.splits)

lemma quiet_emit:
  "quiet s \<Longrightarrow> \<not> is_submit e \<Longrightarrow> e \<noteq> Work_fired \<Longrightarrow> \<not> is_send e \<Longrightarrow> quiet (emit e s)"
  by (simp add: quiet_def emit_def)

lemma quiet_printk: "quiet s \<Longrightarrow> quiet (printk f a s)"
  by (simp add: quiet_def prim_defs)

lemma quiet_work_init: "quiet s \<Longrightarrow> quiet (work_init s)"
  by (simp add: quiet_def prim_defs)

subsection \<open>Where main can end\<close>

lemma quiet_configure_low_powerD:
  "configure_low_power cfg en s = (e, s') \<Longrightarrow> quiet s \<Longrightarrow> quiet s'"
  using quiet_configure_low_power [of s cfg en] by simp

lemma quiet_k_sem_takeD:
  "k_sem_take_forever (lte_handler en) evs s = (w, s') \<Longrightarrow> quiet s \<Longrightarrow> quiet s'"
  using quiet_k_sem_take_forever [of "lte_handler en" s evs] quiet_lte_handler by simp

lemma quiet_client_initD: "client_init cfg en s = (e, s') \<Longrightarrow> quiet s \<Longrightarrow> quiet s'"
  using quiet_client_init [of s cfg en] by simp

lemma quiet_client_connectD: "client_connect cfg en s = (e, s') \<Longrightarrow> quiet s \<Longrightarrow> quiet s'"
  using quiet_client_connect [of s cfg en] by simp

lemma quiet_main_lte_link_control:
  assumes "quiet s"
  shows "quiet (snd (main_lte_link_control cfg en s))"
proof -
  obtain err s1 where c: "configure_low_power cfg en s = (err, s1)"
    by (cases "configure_low_power cfg en s")
  have q1: "quiet s1" using c assms by (rule quiet_configure_low_powerD)
  define s2 where "s2 = (if err \<noteq> 0 then
       printk ''Unable to set low power configuration, error: %d\<newline>'' [ArgInt err] s1
     else s1)"
  have q2: "quiet s2" using q1 by (simp add: s2_def quiet_printk)
  have q3: "quiet (emit (Sem_take K_FOREVER) (modem_configure cfg en s2))"
    using q2 by (simp add: quiet_emit quiet_modem_configure)
  have "quiet (snd (k_sem_take_forever (lte_handler en) evs
           (emit (Sem_take K_FOREVER) (modem_configure cfg en s2))))" for evs
    using q3 by (intro quiet_k_sem_take_forever quiet_lte_handler)
  then show ?thesis using c by (simp add: main_lte_link_control_def s2_def Let_def)
qed

text \<open>The shape of main: where it can end.\<close>

lemma main_cases:
  obtains
    (blocked) s3 where
      "CONFIG_LTE_LINK_CONTROL cfg"
      "main_lte_link_control cfg en (work_init (printk ''TCP Client sample has started\<newline>'' [] s)) = (False, s3)"
      "main cfg en s = (Blocked, s3)"
  | (init_failed) s3 e4 s4 where
      "s3 = snd (if CONFIG_LTE_LINK_CONTROL cfg
                 then main_lte_link_control cfg en (work_init (printk ''TCP Client sample has started\<newline>'' [] s))
                 else (True, work_init (printk ''TCP Client sample has started\<newline>'' [] s)))"
      "client_init cfg en s3 = (e4, s4)" "e4 \<noteq> 0"
      "main cfg en s = (Returned, printk ''Not able to initialize TCP server connection\<newline>'' [] s4)"
  | (connect_failed) s3 s4 e5 s5 where
      "s3 = snd (if CONFIG_LTE_LINK_CONTROL cfg
                 then main_lte_link_control cfg en (work_init (printk ''TCP Client sample has started\<newline>'' [] s))
                 else (True, work_init (printk ''TCP Client sample has started\<newline>'' [] s)))"
      "client_init cfg en s3 = (0, s4)" "client_connect cfg en s4 = (e5, s5)" "e5 \<noteq> 0"
      "main cfg en s = (Returned, printk ''Not able to connect to TCP server %s on port %d\<newline>''
                          [ArgStr (CONFIG_TCP_SERVER_ADDRESS_STATIC cfg),
                           ArgInt (CONFIG_TCP_SERVER_PORT cfg)] s5)"
      "CONFIG_LTE_LINK_CONTROL cfg \<longrightarrow>
         fst (main_lte_link_control cfg en (work_init (printk ''TCP Client sample has started\<newline>'' [] s)))"
  | (streaming) s3 s4 s5 where
      "s3 = snd (if CONFIG_LTE_LINK_CONTROL cfg
                 then main_lte_link_control cfg en (work_init (printk ''TCP Client sample has started\<newline>'' [] s))
                 else (True, work_init (printk ''TCP Client sample has started\<newline>'' [] s)))"
      "client_init cfg en s3 = (0, s4)" "client_connect cfg en s4 = (0, s5)"
      "main cfg en s = (Returned, k_delayed_work_submit K_NO_WAIT s5)"
      "CONFIG_LTE_LINK_CONTROL cfg \<longrightarrow>
         fst (main_lte_link_control cfg en (work_init (printk ''TCP Client sample has started\<newline>'' [] s)))"
proof -
  define s2 where "s2 = work_init (printk ''TCP Client sample has started\<newline>'' [] s)"
  obtain w s3 where ws: "(if CONFIG_LTE_LINK_CONTROL cfg then main_lte_link_control cfg en s2
                          else (True, s2)) = (w, s3)"
    by (cases "if CONFIG_LTE_LINK_CONTROL cfg then main_lte_link_control cfg en s2 else (True, s2)")
  obtain e4 s4 where i: "client_init cfg en s3 = (e4, s4)"
    by (cases "client_init cfg en s3")
  obtain e5 s5 where c: "client_connect cfg en s4 = (e5, s5)"
    by (cases "client_connect cfg en s4")
  have m: "main cfg en s =
     (if \<not> w then (Blocked, s3)
      else if e4 \<noteq> 0 then
        (Returned, printk ''Not able to initialize TCP server connection\<newline>'' [] s4)
      else if e5 \<noteq> 0 then
        (Returned, printk ''Not able to connect to TCP server %s on port %d\<newline>''
                          [ArgStr (CONFIG_TCP_SERVER_ADDRESS_STATIC cfg),
                           ArgInt (CONFIG_TCP_SERVER_PORT cfg)] s5)
      else (Returned, k_delayed_work_submit K_NO_WAIT s5))"
    using ws i c unfolding main_def s2_def by (simp add: Let_def)
  have s3: "s3 = snd (if CONFIG_LTE_LINK_CONTROL cfg then main_lte_link_control cfg en s2
                          else (True, s2))"
    using ws by simp
  show thesis
  proof (cases w)
    case False
    then have "CONFIG_LTE_LINK_CONTROL cfg" "main_lte_link_control cfg en s2 = (False, s3)"
      using ws by (auto split: if_splits)
    then show thesis using blocked m False unfolding s2_def by simp
  next
    case True
    have woke: "CONFIG_LTE_LINK_CONTROL cfg \<longrightarrow> fst (main_lte_link_control cfg en s2)"
      using ws True by (cases "CONFIG_LTE_LINK_CONTROL cfg") simp_all
    show thesis
    proof (cases "e4 = 0")
      case False
      then show thesis using init_failed [OF s3 [unfolded s2_def] i] m True by simp
    next
      case e4: True
      show thesis
      proof (cases "e5 = 0")
        case False
        then show thesis
          using connect_failed [OF s3 [unfolded s2_def] i [unfolded e4] c _ _ woke [unfolded s2_def]]
            m True e4 by simp
      next
        case e5: True
        then show thesis
          using streaming [OF s3 [unfolded s2_def] i [unfolded e4] c [unfolded e5] _ woke [unfolded s2_def]]
            m True e4 by simp
      qed
    qed
  qed
qed

subsection \<open>Runs of the work queue\<close>

lemma work_fn_new_events:
  "new_events s (server_transmission_work_fn cfg r s) =
     [Printk ''Transmitting TCP/IP payload of %d bytes to the ''
        [ArgInt (int (CONFIG_TCP_DATA_UPLOAD_SIZE_BYTES cfg) + 28)],
      Printk ''IP address %s, port number %d\<newline>''
        [ArgStr (CONFIG_TCP_SERVER_ADDRESS_STATIC cfg), ArgInt (CONFIG_TCP_SERVER_PORT cfg)],
      Send_call (client_fd s) (replicate (CONFIG_TCP_DATA_UPLOAD_SIZE_BYTES cfg) 0)
        (CONFIG_TCP_DATA_UPLOAD_SIZE_BYTES cfg) 0] @
     (if fst r < 0
      then [Printk ''Failed to transmit TCP packet, %d\<newline>'' [ArgInt (snd r)],
            Close_call (client_fd s)]
      else [Work_submit (K_SECONDS (CONFIG_TCP_DATA_UPLOAD_FREQUENCY_SECONDS cfg))])"
  by (rule new_events_append) (rule work_fn_trace)

lemma work_q_run_idle: "work_pending s = None \<Longrightarrow> work_q_run cfg rs s = s"
  by (cases rs) simp_all

lemma work_q_run_fire:
  "work_pending s = Some d \<Longrightarrow>
   work_q_run cfg (r # rs) s =
     work_q_run cfg rs (server_transmission_work_fn cfg r (emit Work_fired (s\<lparr>work_pending := None\<rparr>)))"
  by simp

lemma fired_fields:
  "client_fd (emit Work_fired (s\<lparr>work_pending := None\<rparr>)) = client_fd s"
  "open_fds (emit Work_fired (s\<lparr>work_pending := None\<rparr>)) = open_fds s"
  "work_pending (emit Work_fired (s\<lparr>work_pending := None\<rparr>)) = None"
  "trace (emit Work_fired (s\<lparr>work_pending := None\<rparr>)) = trace s @ [Work_fired]"
  by (simp_all add: emit_def)

lemma work_q_run_single:
  "single_outstanding 0 (trace s) \<Longrightarrow>
   outstanding 0 (trace s) = (case work_pending s of None \<Rightarrow> 0 | Some d \<Rightarrow> 1) \<Longrightarrow>
   single_outstanding 0 (trace (work_q_run cfg rs s))"
proof (induction rs arbitrary: s)
  case Nil
  then show ?case by simp
next
  case (Cons r rs)
  show ?case
  proof (cases "work_pending s")
    case None
    with Cons.prems show ?thesis by simp
  next
    case (Some d)
    let ?s' = "server_transmission_work_fn cfg r (emit Work_fired (s\<lparr>work_pending := None\<rparr>))"
    have one: "outstanding 0 (trace s) = 1" using Cons.prems(2) Some by simp
    have a: "single_outstanding 0 (trace ?s')"
      using Cons.prems(1) one
      by (simp add: work_fn_trace fired_fields single_outstanding_append outstanding_append)
    have b: "outstanding 0 (trace ?s') = (case work_pending ?s' of None \<Rightarrow> 0 | Some d \<Rightarrow> 1)"
      using one
      by (simp add: work_fn_trace work_fn_pending fired_fields outstanding_append)
    show ?thesis using Cons.IH [OF a b] Some by simp
  qed
qed

lemma work_q_run_sends:
  "list_all (\<lambda>e. is_send e \<longrightarrow> e = Send_call (client_fd s) buf n 0) (trace s) \<Longrightarrow>
   buf = replicate (CONFIG_TCP_DATA_UPLOAD_SIZE_BYTES cfg) 0 \<Longrightarrow>
   n = CONFIG_TCP_DATA_UPLOAD_SIZE_BYTES cfg \<Longrightarrow>
   list_all (\<lambda>e. is_send e \<longrightarrow> e = Send_call (client_fd s) buf n 0)
     (trace (work_q_run cfg rs s))"
proof (induction rs arbitrary: s)
  case Nil
  then show ?case by simp
next
  case (Cons r rs)
  show ?case
  proof (cases "work_pending s")
    case None
    with Cons.prems show ?thesis by simp
  next
    case (Some d)
    let ?s' = "server_transmission_work_fn cfg r (emit Work_fired (s\<lparr>work_pending := None\<rparr>))"
    have fd: "client_fd ?s' = client_fd s"
      by (simp add: work_fn_client_fd fired_fields)
    have a: "list_all (\<lambda>e. is_send e \<longrightarrow> e = Send_call (client_fd ?s') buf n 0) (trace ?s')"
      unfolding fd using Cons.prems
      by (simp add: work_fn_trace fired_fields)
    show ?thesis using Cons.IH [OF a Cons.prems(2,3)] Some by (simp add: fd)
  qed
qed

subsection \<open>The whole run: main, then the work queue\<close>

lemma client_connect_ret:
  "fst (client_connect cfg en s) =
     (if fst (socket_ret en) < 0 then 0
      else if fst (connect_ret en) < 0 then fst (connect_ret en) else 0)"
  by (simp add: client_connect_def client_disconnect_def prim_defs Let_def split: prod.splits)

lemma client_connect_fd:
  "client_fd (snd (client_connect cfg en s)) = fst (socket_ret en)"
  by (simp add: client_connect_def client_disconnect_def prim_defs Let_def split: prod.splits)

lemma client_connect_released:
  "0 \<le> fst (socket_ret en) \<Longrightarrow> fst (connect_ret en) < 0 \<Longrightarrow>
   fst (socket_ret en) \<notin> open_fds (snd (client_connect cfg en s))"
  by (simp add: client_connect_def client_disconnect_def prim_defs Let_def split: prod.splits)

lemma main_streaming_shape:
  assumes "quiet s"
  shows "quiet (snd (main cfg en s)) \<or>
         (\<exists>s'. quiet s' \<and> client_fd s' = fst (socket_ret en) \<and>
               (fst (socket_ret en) < 0 \<or> 0 \<le> fst (connect_ret en)) \<and>
               snd (main cfg en s) = k_delayed_work_submit K_NO_WAIT s')"
proof -
  have q2: "quiet (work_init (printk ''TCP Client sample has started\<newline>'' [] s))"
    using assms by (simp add: quiet_work_init quiet_printk)
  have q3: "quiet (snd (if CONFIG_LTE_LINK_CONTROL cfg
                 then main_lte_link_control cfg en (work_init (printk ''TCP Client sample has started\<newline>'' [] s))
                 else (True, work_init (printk ''TCP Client sample has started\<newline>'' [] s))))"
    using q2 by (simp add: quiet_main_lte_link_control)
  show ?thesis
  proof (cases rule: main_cases [of cfg en s])
    case (blocked s3)
    then show ?thesis using quiet_main_lte_link_control [OF q2, of cfg en] by simp
  next
    case (init_failed s3 e4 s4)
    then show ?thesis using q3 by (auto intro: quiet_printk dest: quiet_client_initD)
  next
    case (connect_failed s3 s4 e5 s5)
    then show ?thesis
      using q3 by (auto intro!: quiet_printk dest: quiet_client_initD quiet_client_connectD)
  next
    case (streaming s3 s4 s5)
    have "quiet s4" using streaming(2) q3 [folded streaming(1)] by (rule quiet_client_initD)
    then have q5: "quiet s5" using streaming(3) by (auto dest: quiet_client_connectD)
    have fd: "client_fd s5 = fst (socket_ret en)"
      using client_connect_fd [of cfg en s4] streaming(3) by simp
    have r: "fst (socket_ret en) < 0 \<or> 0 \<le> fst (connect_ret en)"
      using client_connect_ret [of cfg en s4] streaming(3) by (auto split: if_splits)
    show ?thesis using q5 fd r streaming(4) by auto
  qed
qed

lemma quiet_init_state: "quiet init_state"
  by (simp add: quiet_def init_state_def)

lemma quiet_no_sends: "quiet s \<Longrightarrow> list_all (\<lambda>e. is_send e \<longrightarrow> Q e) (trace s)"
  unfolding quiet_def by (auto simp: list_all_iff)

lemma system_run_single: "single_outstanding 0 (trace (system_run cfg en))"
proof -
  let ?m = "snd (main cfg en init_state)"
  have "single_outstanding 0 (trace ?m) \<and>
        outstanding 0 (trace ?m) = (case work_pending ?m of None \<Rightarrow> 0 | Some d \<Rightarrow> 1)"
    using main_streaming_shape [OF quiet_init_state, of cfg en]
  proof
    assume "quiet ?m"
    then show ?thesis using quiet_single [of ?m 0] by (simp add: quiet_def)
  next
    assume "\<exists>s'. quiet s' \<and> client_fd s' = fst (socket_ret en) \<and>
               (fst (socket_ret en) < 0 \<or> 0 \<le> fst (connect_ret en)) \<and>
               ?m = k_delayed_work_submit K_NO_WAIT s'"
    then obtain s' where q: "quiet s'" and m: "?m = k_delayed_work_submit K_NO_WAIT s'"
      by blast
    show ?thesis
      unfolding m using quiet_single [OF q, of 0]
      by (simp add: prim_defs single_outstanding_append outstanding_append)
  qed
  then show ?thesis unfolding system_run_def by (intro work_q_run_single) simp_all
qed

lemma system_run_sends:
  "list_all (\<lambda>e. is_send e \<longrightarrow>
       e = Send_call (fst (socket_ret en)) (replicate (CONFIG_TCP_DATA_UPLOAD_SIZE_BYTES cfg) 0)
             (CONFIG_TCP_DATA_UPLOAD_SIZE_BYTES cfg) 0)
     (trace (system_run cfg en))"
proof -
  let ?m = "snd (main cfg en init_state)"
  let ?Q = "\<lambda>e. e = Send_call (fst (socket_ret en)) (replicate (CONFIG_TCP_DATA_UPLOAD_SIZE_BYTES cfg) 0)
             (CONFIG_TCP_DATA_UPLOAD_SIZE_BYTES cfg) 0"
  show ?thesis
    using main_streaming_shape [OF quiet_init_state, of cfg en]
  proof
    assume q: "quiet ?m"
    then have "work_pending ?m = None" by (simp add: quiet_def)
    then have "system_run cfg en = ?m" by (simp add: system_run_def work_q_run_idle)
    then show ?thesis using quiet_no_sends [OF q, of ?Q] by simp
  next
    assume "\<exists>s'. quiet s' \<and> client_fd s' = fst (socket_ret en) \<and>
               (fst (socket_ret en) < 0 \<or> 0 \<le> fst (connect_ret en)) \<and>
               ?m = k_delayed_work_submit K_NO_WAIT s'"
    then obtain s' where q: "quiet s'" and fd: "client_fd s' = fst (socket_ret en)"
      and m: "?m = k_delayed_work_submit K_NO_WAIT s'"
      by blast
    have fd': "client_fd ?m = fst (socket_ret en)"
      unfolding m using fd by (simp add: prim_defs)
    have "list_all (\<lambda>e. is_send e \<longrightarrow> ?Q e) (trace ?m)"
      unfolding m using quiet_no_sends [OF q, of ?Q] by (simp add: prim_defs)
    then show ?thesis
      unfolding system_run_def 
      using work_q_run_sends [of ?m _ _ cfg "send_rets en", OF _ refl refl]
      by (simp add: fd')
  qed
qed

subsection \<open>Traces only grow, and the initialization failure is never logged\<close>

lemma extends_iff:
  "extends s s' = (\<exists>ev. trace s' = trace s @ ev \<and> list_all (\<lambda>e. e \<noteq> init_failure_msg) ev)"
proof
  assume e: "extends s s'"
  then have "trace s' = trace s @ new_events s s'"
    unfolding extends_def new_events_def
    by (metis append_take_drop_id)
  then show "\<exists>ev. trace s' = trace s @ ev \<and> list_all (\<lambda>e. e \<noteq> init_failure_msg) ev"
    using e unfolding extends_def by blast
next
  assume "\<exists>ev. trace s' = trace s @ ev \<and> list_all (\<lambda>e. e \<noteq> init_failure_msg) ev"
  then show "extends s s'" by (auto simp: extends_def new_events_def)
qed

lemma extends_refl: "extends s s"
  by (simp add: extends_def new_events_def)

lemma extends_trans: "extends s t \<Longrightarrow> extends t u \<Longrightarrow> extends s u"
  unfolding extends_iff by auto

lemma extends_set: "extends s s' \<Longrightarrow> e \<in> set (trace s) \<Longrightarrow> e \<in> set (trace s')"
  unfolding extends_iff by auto

lemma extends_not_logged:
  "extends s s' \<Longrightarrow> init_failure_msg \<notin> set (trace s) \<Longrightarrow> init_failure_msg \<notin> set (trace s')"
  unfolding extends_iff by (auto simp: list_all_iff)

lemma extends_printk: "Printk f a \<noteq> init_failure_msg \<Longrightarrow> extends s (printk f a s)"
  by (simp add: extends_def new_events_def prim_defs)

lemma extends_emit: "e \<noteq> init_failure_msg \<Longrightarrow> extends s (emit e s)"
  by (simp add: extends_def new_events_def prim_defs)

lemma extends_lte_handler: "extends s (lte_handler en e s)"
  by (cases e)
    (simp_all add: extends_def new_events_def init_failure_msg_def prim_defs split: prod.splits)

lemma extends_k_sem_take_forever:
  "extends s (snd (k_sem_take_forever (lte_handler en) evs s))"
proof (induction evs arbitrary: s)
  case Nil
  show ?case by (simp add: extends_def new_events_def)
next
  case (Cons e evs)
  show ?case
  proof (cases "0 < lte_connected s")
    case True
    then show ?thesis by (simp add: extends_def new_events_def)
  next
    case False
    then show ?thesis
      using extends_trans [OF extends_lte_handler [of s en e] Cons.IH [of "lte_handler en e s"]]
      by simp
  qed
qed

lemma extends_configure_low_power: "extends s (snd (configure_low_power cfg en s))"
  by (simp add: configure_low_power_def extends_def new_events_def init_failure_msg_def
        prim_defs Let_def split: prod.splits)

lemma extends_modem_configure: "extends s (modem_configure cfg en s)"
  by (simp add: modem_configure_def extends_def new_events_def init_failure_msg_def
        prim_defs Let_def split: prod.splits)

lemma extends_client_init: "extends s (snd (client_init cfg en s))"
  by (simp add: client_init_def extends_def new_events_def init_failure_msg_def
        prim_defs Let_def split: prod.splits option.splits)

lemma extends_client_connect: "extends s (snd (client_connect cfg en s))"
  by (simp add: client_connect_def client_disconnect_def extends_def new_events_def
        init_failure_msg_def prim_defs Let_def split: prod.splits)

lemma client_connect_socket_called:
  "Socket_call AF_INET \<in> set (trace (snd (client_connect cfg en s)))"
  by (simp add: client_connect_def client_disconnect_def prim_defs Let_def split: prod.splits)

lemma client_init_ret: "fst (client_init cfg en s) = 0"
  by (simp add: client_init_def Let_def split: prod.splits)

lemma main_lte_link_control_extends:
  "\<exists>t. extends s t \<and> Sem_take K_FOREVER \<in> set (trace t) \<and>
       (\<not> CONFIG_LTE_AUTO_INIT_AND_CONNECT cfg \<longrightarrow> Init_and_connect_async \<in> set (trace t)) \<and>
       extends t (snd (main_lte_link_control cfg en s))"
proof -
  obtain err s1 where c: "configure_low_power cfg en s = (err, s1)"
    by (cases "configure_low_power cfg en s")
  define s2 where "s2 = (if err \<noteq> 0 then
       printk ''Unable to set low power configuration, error: %d\<newline>'' [ArgInt err] s1
     else s1)"
  define s3 where "s3 = modem_configure cfg en s2"
  define t where "t = emit (Sem_take K_FOREVER) s3"
  have e1: "extends s s1" using extends_configure_low_power [of s cfg en] c by simp
  have e2: "extends s1 s2"
    by (simp add: s2_def extends_refl extends_printk init_failure_msg_def)
  have e3: "extends s2 s3" by (simp add: s3_def extends_modem_configure)
  have e4: "extends s3 t" by (simp add: t_def extends_emit init_failure_msg_def)
  have a: "extends s t" using e1 e2 e3 e4 by (blast intro: extends_trans)
  have b: "Sem_take K_FOREVER \<in> set (trace t)" by (simp add: t_def emit_def)
  have d: "\<not> CONFIG_LTE_AUTO_INIT_AND_CONNECT cfg \<longrightarrow> Init_and_connect_async \<in> set (trace t)"
    by (simp add: t_def s3_def modem_configure_def prim_defs Let_def split: prod.splits)
  have m: "main_lte_link_control cfg en s =
      k_sem_take_forever (lte_handler en)
           (if CONFIG_LTE_AUTO_INIT_AND_CONNECT cfg then [] else lte_events en) t"
    using c by (simp add: main_lte_link_control_def Let_def s2_def s3_def t_def)
  have "extends t (snd (main_lte_link_control cfg en s))"
    unfolding m by (rule extends_k_sem_take_forever)
  then show ?thesis using a b d by blast
qed

lemma extends_main_lte_link_control: "extends s (snd (main_lte_link_control cfg en s))"
  using main_lte_link_control_extends [of s cfg en] by (blast intro: extends_trans)

lemma extends_main: "extends s (snd (main cfg en s))"
proof -
  let ?s2 = "work_init (printk ''TCP Client sample has started\<newline>'' [] s)"
  let ?s3 = "snd (if CONFIG_LTE_LINK_CONTROL cfg then main_lte_link_control cfg en ?s2
                  else (True, ?s2))"
  have e2: "extends s ?s2"
    by (simp add: extends_def new_events_def init_failure_msg_def prim_defs)
  have "extends ?s2 ?s3" by (simp add: extends_refl extends_main_lte_link_control)
  then have e3: "extends s ?s3" using e2 by (blast intro: extends_trans)
  show ?thesis
  proof (cases rule: main_cases [of cfg en s])
    case (blocked s3)
    then show ?thesis using e3 by simp
  next
    case (init_failed s3 e4 s4)
    then show ?thesis using client_init_ret [of cfg en s3] by simp
  next
    case (connect_failed s3 s4 e5 s5)
    have "extends s3 s4" using extends_client_init [of s3 cfg en] connect_failed(2) by simp
    moreover have "extends s4 s5"
      using extends_client_connect [of s4 cfg en] connect_failed(3) by simp
    moreover have "extends s5 (snd (main cfg en s))"
      unfolding connect_failed(5) by (simp add: extends_printk init_failure_msg_def)
    ultimately show ?thesis using e3 [folded connect_failed(1)] by (blast intro: extends_trans)
  next
    case (streaming s3 s4 s5)
    have "extends s3 s4" using extends_client_init [of s3 cfg en] streaming(2) by simp
    moreover have "extends s4 s5"
      using extends_client_connect [of s4 cfg en] streaming(3) by simp
    moreover have "extends s5 (snd (main cfg en s))"
      unfolding streaming(4)
      by (simp add: extends_def new_events_def init_failure_msg_def prim_defs)
    ultimately show ?thesis using e3 [folded streaming(1)] by (blast intro: extends_trans)
  qed
qed

subsection \<open>What the connection attempt returns\<close>

lemmas main_eval_defs = main_def main_lte_link_control_def configure_low_power_def
  modem_configure_def client_init_def client_connect_def client_disconnect_def
  server_transmission_work_fn_def system_run_def char_array_init_zero
  TCP_IP_HEADER_SIZE_def EBADF_def

lemma main_connect_call_failure:
  assumes "0 \<le> fst (socket_ret en)" "fst (connect_ret en) < 0"
  shows "quiet (snd (main cfg en init_state)) \<and>
         system_run cfg en = snd (main cfg en init_state)"
proof -
  have q: "quiet (snd (main cfg en init_state))"
    using main_streaming_shape [OF quiet_init_state, of cfg en] assms by auto
  then have "work_pending (snd (main cfg en init_state)) = None" by (simp add: quiet_def)
  then show ?thesis using q by (simp add: system_run_def work_q_run_idle)
qed

subsection \<open>The semaphore and the registration events\<close>

lemma lte_handler_count:
  "lte_connected (lte_handler en e s) =
     (if e = LTE_LC_EVT_NW_REG_STATUS LTE_LC_NW_REG_REGISTERED_HOME \<or>
         e = LTE_LC_EVT_NW_REG_STATUS LTE_LC_NW_REG_REGISTERED_ROAMING
      then 1 else lte_connected s)"
  by (cases e) (auto simp: prim_defs split: prod.splits)

lemma lte_handler_other:
  "e \<noteq> LTE_LC_EVT_NW_REG_STATUS LTE_LC_NW_REG_REGISTERED_HOME \<Longrightarrow>
   e \<noteq> LTE_LC_EVT_NW_REG_STATUS LTE_LC_NW_REG_REGISTERED_ROAMING \<Longrightarrow>
   (lte_handler en e s)\<lparr>trace := trace s\<rparr> = s \<and>
   list_all is_printk (new_events s (lte_handler en e s))"
  by (cases e) (simp_all add: prim_defs new_events_def split: prod.splits)

lemma lte_handler_gives:
  "(Sem_give \<in> set (new_events s (lte_handler en e s))) =
     (e = LTE_LC_EVT_NW_REG_STATUS LTE_LC_NW_REG_REGISTERED_HOME \<or>
      e = LTE_LC_EVT_NW_REG_STATUS LTE_LC_NW_REG_REGISTERED_ROAMING)"
  by (cases e) (auto simp: prim_defs new_events_def split: prod.splits)

lemma k_sem_take_forever_wakes:
  "fst (k_sem_take_forever (lte_handler en) evs s) =
     (0 < lte_connected s \<or>
      (\<exists>e \<in> set evs. e = LTE_LC_EVT_NW_REG_STATUS LTE_LC_NW_REG_REGISTERED_HOME \<or>
                      e = LTE_LC_EVT_NW_REG_STATUS LTE_LC_NW_REG_REGISTERED_ROAMING))"
proof (induction evs arbitrary: s)
  case Nil
  show ?case by simp
next
  case (Cons e evs)
  show ?case
  proof (cases "0 < lte_connected s")
    case True
    then show ?thesis by simp
  next
    case False
    then show ?thesis
      using Cons.IH [of "lte_handler en e s"] by (auto simp: lte_handler_count)
  qed
qed

lemma fold_lte_handler_count:
  "lte_connected (fold (lte_handler en) evs s) =
     (if \<exists>e \<in> set evs. e = LTE_LC_EVT_NW_REG_STATUS LTE_LC_NW_REG_REGISTERED_HOME \<or>
                       e = LTE_LC_EVT_NW_REG_STATUS LTE_LC_NW_REG_REGISTERED_ROAMING
      then 1 else lte_connected s)"
proof (induction evs arbitrary: s)
  case Nil
  show ?case by simp
next
  case (Cons e evs)
  show ?case
    by (simp add: Cons.IH lte_handler_count del: lte_handler.simps)
qed

lemma configure_low_power_count:
  "lte_connected (snd (configure_low_power cfg en s)) = lte_connected s"
  by (simp add: configure_low_power_def prim_defs Let_def split: prod.splits)

lemma modem_configure_count: "lte_connected (modem_configure cfg en s) = lte_connected s"
  by (simp add: modem_configure_def prim_defs Let_def split: prod.splits)

lemma main_lte_link_control_wakes:
  "fst (main_lte_link_control cfg en s) =
     (0 < lte_connected s \<or>
      (\<not> CONFIG_LTE_AUTO_INIT_AND_CONNECT cfg \<and>
       (\<exists>e \<in> set (lte_events en).
           e = LTE_LC_EVT_NW_REG_STATUS LTE_LC_NW_REG_REGISTERED_HOME \<or>
           e = LTE_LC_EVT_NW_REG_STATUS LTE_LC_NW_REG_REGISTERED_ROAMING)))"
proof -
  obtain err s1 where c: "configure_low_power cfg en s = (err, s1)"
    by (cases "configure_low_power cfg en s")
  have n: "lte_connected s1 = lte_connected s"
    using configure_low_power_count [of cfg en s] c by simp
  show ?thesis
    using c n
    by (simp add: main_lte_link_control_def Let_def k_sem_take_forever_wakes
          modem_configure_count prim_defs)
qed

lemma main_returns:
  "(fst (main cfg en init_state) = Returned) =
     (CONFIG_LTE_LINK_CONTROL cfg \<longrightarrow>
        \<not> CONFIG_LTE_AUTO_INIT_AND_CONNECT cfg \<and>
        (\<exists>e \<in> set (lte_events en).
           e = LTE_LC_EVT_NW_REG_STATUS LTE_LC_NW_REG_REGISTERED_HOME \<or>
           e = LTE_LC_EVT_NW_REG_STATUS LTE_LC_NW_REG_REGISTERED_ROAMING))"
proof -
  let ?s2 = "work_init (printk ''TCP Client sample has started\<newline>'' [] init_state)"
  have z: "lte_connected ?s2 = 0" by (simp add: prim_defs init_state_def)
  note w = main_lte_link_control_wakes [of cfg en ?s2, unfolded z]
  show ?thesis
  proof (cases rule: main_cases [of cfg en init_state])
    case (blocked s3)
    then show ?thesis using w by simp
  next
    case (init_failed s3 e4 s4)
    then show ?thesis using client_init_ret [of cfg en s3] by simp
  next
    case (connect_failed s3 s4 e5 s5)
    then show ?thesis using w by auto
  next
    case (streaming s3 s4 s5)
    then show ?thesis using w by auto
  qed
qed

subsection \<open>States up to log lines\<close>

lemma erase_logs_fields:
  "client_fd (erase_logs s) = client_fd s"
  "host_addr (erase_logs s) = host_addr s"
  "lte_connected (erase_logs s) = lte_connected s"
  "work_pending (erase_logs s) = work_pending s"
  "errno (erase_logs s) = errno s"
  "open_fds (erase_logs s) = open_fds s"
  "trace (erase_logs s) = control_events (trace s)"
  by (simp_all add: erase_logs_def)

lemma erase_logs_eqD:
  assumes "erase_logs s = erase_logs t"
  shows "client_fd s = client_fd t" "host_addr s = host_addr t"
    "lte_connected s = lte_connected t" "work_pending s = work_pending t"
    "errno s = errno t" "open_fds s = open_fds t"
    "control_events (trace s) = control_events (trace t)"
  using assms erase_logs_fields [of s] erase_logs_fields [of t] by simp_all

lemma erase_logs_idem: "erase_logs (erase_logs s) = erase_logs s"
  by (simp add: erase_logs_def control_events_def)

lemma erase_logs_printk: "erase_logs (printk f a s) = erase_logs s"
  by (simp add: erase_logs_def control_events_def prim_defs)

lemma erase_logs_emit: "erase_logs (emit e (erase_logs s)) = erase_logs (emit e s)"
  by (simp add: erase_logs_def control_events_def prim_defs)

lemma erase_logs_submit:
  "erase_logs (k_delayed_work_submit d (erase_logs s)) = erase_logs (k_delayed_work_submit d s)"
  by (simp add: erase_logs_def control_events_def prim_defs)

lemma erase_logs_lte_handler:
  "erase_logs (lte_handler en e (erase_logs s)) = erase_logs (lte_handler en e s)"
  by (cases e) (simp_all add: erase_logs_def control_events_def prim_defs split: prod.splits)

lemma erase_logs_modem_configure:
  "erase_logs (modem_configure cfg en (erase_logs s)) = erase_logs (modem_configure cfg en s)"
  by (simp add: modem_configure_def erase_logs_def control_events_def prim_defs Let_def
        split: prod.splits)

lemma erase_logs_client_init:
  "fst (client_init cfg en (erase_logs s)) = fst (client_init cfg en s) \<and>
   erase_logs (snd (client_init cfg en (erase_logs s))) = erase_logs (snd (client_init cfg en s))"
  by (simp add: client_init_def erase_logs_def control_events_def prim_defs Let_def
        split: prod.splits option.splits)

lemma erase_logs_client_connect:
  "fst (client_connect cfg en (erase_logs s)) = fst (client_connect cfg en s) \<and>
   erase_logs (snd (client_connect cfg en (erase_logs s))) =
     erase_logs (snd (client_connect cfg en s))"
  by (simp add: client_connect_def client_disconnect_def erase_logs_def control_events_def
        prim_defs Let_def split: prod.splits)

lemma erase_logs_count_update:
  "erase_logs (s\<lparr>lte_connected := k\<rparr>) = (erase_logs s)\<lparr>lte_connected := k\<rparr>"
  by (simp add: erase_logs_def)

lemma erase_logs_k_sem_take_forever:
  "erase_logs s = erase_logs t \<Longrightarrow>
   fst (k_sem_take_forever (lte_handler en) evs s) =
     fst (k_sem_take_forever (lte_handler en) evs t) \<and>
   erase_logs (snd (k_sem_take_forever (lte_handler en) evs s)) =
     erase_logs (snd (k_sem_take_forever (lte_handler en) evs t))"
proof (induction evs arbitrary: s t)
  case Nil
  have n: "lte_connected s = lte_connected t" using Nil by (rule erase_logs_eqD)
  have "erase_logs (s\<lparr>lte_connected := k\<rparr>) = erase_logs (t\<lparr>lte_connected := k\<rparr>)" for k
    using Nil by (simp add: erase_logs_count_update)
  then show ?case using n Nil by simp
next
  case (Cons e evs)
  have n: "lte_connected s = lte_connected t" using Cons.prems by (rule erase_logs_eqD)
  have u: "erase_logs (s\<lparr>lte_connected := k\<rparr>) = erase_logs (t\<lparr>lte_connected := k\<rparr>)" for k
    using Cons.prems by (simp add: erase_logs_count_update)
  have h: "erase_logs (lte_handler en e s) = erase_logs (lte_handler en e t)"
    using erase_logs_lte_handler [of en e s] erase_logs_lte_handler [of en e t] Cons.prems
    by simp
  show ?case
  proof (cases "0 < lte_connected s")
    case True
    then show ?thesis using n u by simp
  next
    case False
    then show ?thesis using n Cons.IH [OF h] by simp
  qed
qed

lemma erase_logs_cong_printk:
  "erase_logs s = erase_logs t \<Longrightarrow> erase_logs (printk f a s) = erase_logs (printk g b t)"
  by (simp add: erase_logs_printk)

lemma erase_logs_cong_emit:
  "erase_logs s = erase_logs t \<Longrightarrow> erase_logs (emit e s) = erase_logs (emit e t)"
  using erase_logs_emit [of e s] erase_logs_emit [of e t] by simp

lemma erase_logs_cong_submit:
  "erase_logs s = erase_logs t \<Longrightarrow>
   erase_logs (k_delayed_work_submit d s) = erase_logs (k_delayed_work_submit d t)"
  using erase_logs_submit [of d s] erase_logs_submit [of d t] by simp

lemma erase_logs_cong_modem_configure:
  "erase_logs s = erase_logs t \<Longrightarrow>
   erase_logs (modem_configure cfg en s) = erase_logs (modem_configure cfg en t)"
  using erase_logs_modem_configure [of cfg en s] erase_logs_modem_configure [of cfg en t]
  by simp

lemma erase_logs_cong_client_init:
  "erase_logs s = erase_logs t \<Longrightarrow>
   fst (client_init cfg en s) = fst (client_init cfg en t) \<and>
   erase_logs (snd (client_init cfg en s)) = erase_logs (snd (client_init cfg en t))"
  using erase_logs_client_init [of cfg en s] erase_logs_client_init [of cfg en t] by simp

lemma erase_logs_cong_client_connect:
  "erase_logs s = erase_logs t \<Longrightarrow>
   fst (client_connect cfg en s) = fst (client_connect cfg en t) \<and>
   erase_logs (snd (client_connect cfg en s)) = erase_logs (snd (client_connect cfg en t))"
  using erase_logs_client_connect [of cfg en s] erase_logs_client_connect [of cfg en t]
  by simp



text \<open>The answers to the three power-saving requests are read by \<open>configure_low_power\<close> only.\<close>

lemma configure_low_power_snd:
  "snd (configure_low_power cfg en s) =
     (let s1 = emit (Psm_req (CONFIG_TCP_PSM_ENABLE cfg)) s;
          t1 = (if psm_ret en \<noteq> 0
                then printk ''lte_lc_psm_req, error: %d\<newline>'' [ArgInt (psm_ret en)] s1 else s1);
          s2 = emit (Edrx_req (CONFIG_TCP_EDRX_ENABLE cfg)) t1;
          t2 = (if edrx_ret en \<noteq> 0
                then printk ''lte_lc_edrx_req, error: %d\<newline>'' [ArgInt (edrx_ret en)] s2 else s2)
      in if CONFIG_TCP_RAI_ENABLE cfg then
           (let s3 = emit (Rai_req True) t2
            in if rai_ret en \<noteq> 0
               then printk ''lte_lc_rai_req, error: %d\<newline>'' [ArgInt (rai_ret en)] s3 else s3)
         else t2)"
  by (simp add: configure_low_power_def lte_lc_psm_req_def lte_lc_edrx_req_def
        lte_lc_rai_req_def Let_def)

lemma erase_logs_cond_printk: "erase_logs (if c then printk f a t else t) = erase_logs t"
  by (simp add: erase_logs_printk)

lemma erase_logs_emit_cond_printk:
  "erase_logs (emit e (if c then printk f a t else t)) = erase_logs (emit e t)"
  using erase_logs_emit [of e "printk f a t"] erase_logs_emit [of e t]
  by (simp add: erase_logs_printk)

lemma configure_low_power_erased:
  "erase_logs (snd (configure_low_power cfg en s)) =
   erase_logs
     (if CONFIG_TCP_RAI_ENABLE cfg
      then emit (Rai_req True)
             (emit (Edrx_req (CONFIG_TCP_EDRX_ENABLE cfg))
                (emit (Psm_req (CONFIG_TCP_PSM_ENABLE cfg)) s))
      else emit (Edrx_req (CONFIG_TCP_EDRX_ENABLE cfg))
             (emit (Psm_req (CONFIG_TCP_PSM_ENABLE cfg)) s))"
proof -
  let ?s1 = "emit (Psm_req (CONFIG_TCP_PSM_ENABLE cfg)) s"
  let ?t1 = "if psm_ret en \<noteq> 0
             then printk ''lte_lc_psm_req, error: %d\<newline>'' [ArgInt (psm_ret en)] ?s1 else ?s1"
  let ?s2 = "emit (Edrx_req (CONFIG_TCP_EDRX_ENABLE cfg)) ?t1"
  let ?t2 = "if edrx_ret en \<noteq> 0
             then printk ''lte_lc_edrx_req, error: %d\<newline>'' [ArgInt (edrx_ret en)] ?s2 else ?s2"
  let ?s3 = "emit (Rai_req True) ?t2"
  have e2: "erase_logs ?s2 = erase_logs (emit (Edrx_req (CONFIG_TCP_EDRX_ENABLE cfg)) ?s1)"
    by (rule erase_logs_emit_cond_printk)
  have t2: "erase_logs ?t2 = erase_logs (emit (Edrx_req (CONFIG_TCP_EDRX_ENABLE cfg)) ?s1)"
    using e2 by (simp only: erase_logs_cond_printk)
  have e3: "erase_logs ?s3 =
            erase_logs (emit (Rai_req True) (emit (Edrx_req (CONFIG_TCP_EDRX_ENABLE cfg)) ?s1))"
    using erase_logs_emit [of "Rai_req True" ?t2]
      erase_logs_emit [of "Rai_req True" "emit (Edrx_req (CONFIG_TCP_EDRX_ENABLE cfg)) ?s1"]
    by (simp only: t2)
  have t3: "erase_logs (if rai_ret en \<noteq> 0
              then printk ''lte_lc_rai_req, error: %d\<newline>'' [ArgInt (rai_ret en)] ?s3 else ?s3) =
            erase_logs (emit (Rai_req True) (emit (Edrx_req (CONFIG_TCP_EDRX_ENABLE cfg)) ?s1))"
    using e3 by (simp only: erase_logs_cond_printk)
  show ?thesis
  proof (cases "CONFIG_TCP_RAI_ENABLE cfg")
    case True
    then show ?thesis
      unfolding configure_low_power_snd Let_def using t3 by (simp only: if_True)
  next
    case False
    then show ?thesis
      unfolding configure_low_power_snd Let_def using t2 by (simp only: if_False)
  qed
qed

lemma configure_low_power_logs_only:
  "erase_logs (snd (configure_low_power cfg en' s)) =
   erase_logs (snd (configure_low_power cfg en s))"
  by (simp only: configure_low_power_erased)

lemma low_power_rets_unread:
  "modem_configure cfg (en\<lparr>psm_ret := a, edrx_ret := b, rai_ret := c\<rparr>) = modem_configure cfg en"
  "lte_handler (en\<lparr>psm_ret := a, edrx_ret := b, rai_ret := c\<rparr>) = lte_handler en"
  "client_init cfg (en\<lparr>psm_ret := a, edrx_ret := b, rai_ret := c\<rparr>) = client_init cfg en"
  "client_connect cfg (en\<lparr>psm_ret := a, edrx_ret := b, rai_ret := c\<rparr>) = client_connect cfg en"
proof -
  show "modem_configure cfg (en\<lparr>psm_ret := a, edrx_ret := b, rai_ret := c\<rparr>) = modem_configure cfg en"
    by (rule ext) (simp add: modem_configure_def lte_lc_init_and_connect_async_def)
  show "lte_handler (en\<lparr>psm_ret := a, edrx_ret := b, rai_ret := c\<rparr>) = lte_handler en"
  proof (rule ext, rule ext)
    fix e s
    show "lte_handler (en\<lparr>psm_ret := a, edrx_ret := b, rai_ret := c\<rparr>) e s = lte_handler en e s"
      by (cases e) simp_all
  qed
  show "client_init cfg (en\<lparr>psm_ret := a, edrx_ret := b, rai_ret := c\<rparr>) = client_init cfg en"
    by (rule ext) (simp add: client_init_def inet_pton_call_def)
  show "client_connect cfg (en\<lparr>psm_ret := a, edrx_ret := b, rai_ret := c\<rparr>) = client_connect cfg en"
    by (rule ext) (simp add: client_connect_def Let_def split: prod.splits)
qed

lemma main_lte_link_control_low_power_rets:
  "fst (main_lte_link_control cfg (en\<lparr>psm_ret := a, edrx_ret := b, rai_ret := c\<rparr>) s) =
     fst (main_lte_link_control cfg en s) \<and>
   erase_logs (snd (main_lte_link_control cfg (en\<lparr>psm_ret := a, edrx_ret := b, rai_ret := c\<rparr>) s)) =
     erase_logs (snd (main_lte_link_control cfg en s))"
proof -
  let ?en' = "en\<lparr>psm_ret := a, edrx_ret := b, rai_ret := c\<rparr>"
  obtain err s1 where c: "configure_low_power cfg en s = (err, s1)"
    by (cases "configure_low_power cfg en s")
  obtain err' s1' where c': "configure_low_power cfg ?en' s = (err', s1')"
    by (cases "configure_low_power cfg ?en' s")
  define s2 where "s2 = (if err \<noteq> 0 then
       printk ''Unable to set low power configuration, error: %d\<newline>'' [ArgInt err] s1
     else s1)"
  define s2' where "s2' = (if err' \<noteq> 0 then
       printk ''Unable to set low power configuration, error: %d\<newline>'' [ArgInt err'] s1'
     else s1')"
  define evs where "evs = (if CONFIG_LTE_AUTO_INIT_AND_CONNECT cfg then [] else lte_events en)"
  have e1: "erase_logs s1' = erase_logs s1"
    using configure_low_power_logs_only [of cfg ?en' s en] c c' by simp
  have e2: "erase_logs s2' = erase_logs s2"
    using e1 by (simp add: s2_def s2'_def erase_logs_printk)
  have e3: "erase_logs (emit (Sem_take K_FOREVER) (modem_configure cfg en s2')) =
            erase_logs (emit (Sem_take K_FOREVER) (modem_configure cfg en s2))"
    using e2 by (intro erase_logs_cong_emit erase_logs_cong_modem_configure)
  have m: "main_lte_link_control cfg en s =
      k_sem_take_forever (lte_handler en) evs (emit (Sem_take K_FOREVER) (modem_configure cfg en s2))"
    using c by (simp add: main_lte_link_control_def Let_def s2_def evs_def)
  have m': "main_lte_link_control cfg ?en' s =
      k_sem_take_forever (lte_handler en) evs (emit (Sem_take K_FOREVER) (modem_configure cfg en s2'))"
    using c' by (simp add: main_lte_link_control_def Let_def s2'_def evs_def low_power_rets_unread)
  show ?thesis
    unfolding m m' by (rule erase_logs_k_sem_take_forever [OF e3])
qed

lemma main_unfold:
  "main cfg en s =
     (let s2 = work_init (printk ''TCP Client sample has started\<newline>'' [] s);
          ws = (if CONFIG_LTE_LINK_CONTROL cfg then main_lte_link_control cfg en s2
                else (True, s2));
          i = client_init cfg en (snd ws);
          c = client_connect cfg en (snd i)
      in if \<not> fst ws then (Blocked, snd ws)
         else if fst i \<noteq> 0 then
           (Returned, printk ''Not able to initialize TCP server connection\<newline>'' [] (snd i))
         else if fst c \<noteq> 0 then
           (Returned, printk ''Not able to connect to TCP server %s on port %d\<newline>''
                          [ArgStr (CONFIG_TCP_SERVER_ADDRESS_STATIC cfg),
                           ArgInt (CONFIG_TCP_SERVER_PORT cfg)] (snd c))
         else (Returned, k_delayed_work_submit K_NO_WAIT (snd c)))"
  by (simp add: main_def Let_def case_prod_beta)

lemma main_low_power_rets:
  "fst (main cfg (en\<lparr>psm_ret := a, edrx_ret := b, rai_ret := c\<rparr>) s) = fst (main cfg en s) \<and>
   erase_logs (snd (main cfg (en\<lparr>psm_ret := a, edrx_ret := b, rai_ret := c\<rparr>) s)) =
     erase_logs (snd (main cfg en s))"
proof -
  let ?en' = "en\<lparr>psm_ret := a, edrx_ret := b, rai_ret := c\<rparr>"
  define s2 where "s2 = work_init (printk ''TCP Client sample has started\<newline>'' [] s)"
  define ws where "ws = (if CONFIG_LTE_LINK_CONTROL cfg then main_lte_link_control cfg en s2
                else (True, s2))"
  define ws' where "ws' = (if CONFIG_LTE_LINK_CONTROL cfg then main_lte_link_control cfg ?en' s2
                else (True, s2))"
  define i where "i = client_init cfg en (snd ws)"
  define i' where "i' = client_init cfg en (snd ws')"
  define cc where "cc = client_connect cfg en (snd i)"
  define cc' where "cc' = client_connect cfg en (snd i')"
  have w1: "fst ws' = fst ws" and w2: "erase_logs (snd ws') = erase_logs (snd ws)"
    unfolding ws_def ws'_def
    using main_lte_link_control_low_power_rets
      [where cfg = cfg and en = en and a = a and b = b and c = c and s = s2]
    by simp_all
  have i1: "fst i' = fst i" and i2: "erase_logs (snd i') = erase_logs (snd i)"
    unfolding i_def i'_def using erase_logs_cong_client_init [OF w2, of cfg en] by blast+
  have c1: "fst cc' = fst cc" and c2: "erase_logs (snd cc') = erase_logs (snd cc)"
    unfolding cc_def cc'_def using erase_logs_cong_client_connect [OF i2, of cfg en] by blast+
  have m: "main cfg en s =
      (if \<not> fst ws then (Blocked, snd ws)
       else if fst i \<noteq> 0 then
         (Returned, printk ''Not able to initialize TCP server connection\<newline>'' [] (snd i))
       else if fst cc \<noteq> 0 then
         (Returned, printk ''Not able to connect to TCP server %s on port %d\<newline>''
                          [ArgStr (CONFIG_TCP_SERVER_ADDRESS_STATIC cfg),
                           ArgInt (CONFIG_TCP_SERVER_PORT cfg)] (snd cc))
       else (Returned, k_delayed_work_submit K_NO_WAIT (snd cc)))"
    unfolding cc_def i_def ws_def s2_def main_unfold [of cfg en s] Let_def by (rule refl)
  have u: "main cfg ?en' s =
     (let s2 = work_init (printk ''TCP Client sample has started\<newline>'' [] s);
          ws = (if CONFIG_LTE_LINK_CONTROL cfg then main_lte_link_control cfg ?en' s2
                else (True, s2));
          i = client_init cfg en (snd ws);
          c = client_connect cfg en (snd i)
      in if \<not> fst ws then (Blocked, snd ws)
         else if fst i \<noteq> 0 then
           (Returned, printk ''Not able to initialize TCP server connection\<newline>'' [] (snd i))
         else if fst c \<noteq> 0 then
           (Returned, printk ''Not able to connect to TCP server %s on port %d\<newline>''
                          [ArgStr (CONFIG_TCP_SERVER_ADDRESS_STATIC cfg),
                           ArgInt (CONFIG_TCP_SERVER_PORT cfg)] (snd c))
         else (Returned, k_delayed_work_submit K_NO_WAIT (snd c)))"
    using main_unfold [of cfg ?en' s]
    by (simp only: low_power_rets_unread(3,4) config.simps)
  have m': "main cfg ?en' s =
      (if \<not> fst ws' then (Blocked, snd ws')
       else if fst i' \<noteq> 0 then
         (Returned, printk ''Not able to initialize TCP server connection\<newline>'' [] (snd i'))
       else if fst cc' \<noteq> 0 then
         (Returned, printk ''Not able to connect to TCP server %s on port %d\<newline>''
                          [ArgStr (CONFIG_TCP_SERVER_ADDRESS_STATIC cfg),
                           ArgInt (CONFIG_TCP_SERVER_PORT cfg)] (snd cc'))
       else (Returned, k_delayed_work_submit K_NO_WAIT (snd cc')))"
    unfolding cc'_def i'_def ws'_def s2_def u Let_def by (rule refl)
  have p: "erase_logs (printk f x (snd i')) = erase_logs (printk g y (snd i))" for f x g y
    using i2 by (simp only: erase_logs_printk)
  have q: "erase_logs (printk f x (snd cc')) = erase_logs (printk g y (snd cc))" for f x g y
    using c2 by (simp only: erase_logs_printk)
  have r: "erase_logs (k_delayed_work_submit K_NO_WAIT (snd cc')) =
           erase_logs (k_delayed_work_submit K_NO_WAIT (snd cc))"
    using c2 by (rule erase_logs_cong_submit)
  show ?thesis
    unfolding m m' w1 i1 c1 using w2 p q r by simp
qed

subsection \<open>What main reaches\<close>

lemma main_after_link_control:
  assumes "CONFIG_LTE_LINK_CONTROL cfg"
  shows "extends (snd (main_lte_link_control cfg en
                         (work_init (printk ''TCP Client sample has started\<newline>'' [] s))))
           (snd (main cfg en s))"
proof (cases rule: main_cases [of cfg en s])
  case (blocked s3)
  then show ?thesis by (simp add: extends_refl)
next
  case (init_failed s3 e4 s4)
  then show ?thesis using client_init_ret [of cfg en s3] by simp
next
  case (connect_failed s3 s4 e5 s5)
  have "extends s3 s4" using extends_client_init [of s3 cfg en] connect_failed(2) by simp
  moreover have "extends s4 s5"
    using extends_client_connect [of s4 cfg en] connect_failed(3) by simp
  moreover have "extends s5 (snd (main cfg en s))"
    unfolding connect_failed(5) by (simp add: extends_printk init_failure_msg_def)
  ultimately have "extends s3 (snd (main cfg en s))" by (blast intro: extends_trans)
  then show ?thesis using connect_failed(1) assms by simp
next
  case (streaming s3 s4 s5)
  have "extends s3 s4" using extends_client_init [of s3 cfg en] streaming(2) by simp
  moreover have "extends s4 s5"
    using extends_client_connect [of s4 cfg en] streaming(3) by simp
  moreover have "extends s5 (snd (main cfg en s))"
    unfolding streaming(4)
    by (simp add: extends_def new_events_def init_failure_msg_def prim_defs)
  ultimately have "extends s3 (snd (main cfg en s))" by (blast intro: extends_trans)
  then show ?thesis using streaming(1) assms by simp
qed

lemma main_reaches_wait:
  assumes "CONFIG_LTE_LINK_CONTROL cfg"
  shows "Sem_take K_FOREVER \<in> set (trace (snd (main cfg en s))) \<and>
         (\<not> CONFIG_LTE_AUTO_INIT_AND_CONNECT cfg \<longrightarrow>
            Init_and_connect_async \<in> set (trace (snd (main cfg en s))))"
proof -
  let ?s2 = "work_init (printk ''TCP Client sample has started\<newline>'' [] s)"
  obtain t where t: "Sem_take K_FOREVER \<in> set (trace t)"
      "\<not> CONFIG_LTE_AUTO_INIT_AND_CONNECT cfg \<longrightarrow> Init_and_connect_async \<in> set (trace t)"
      "extends t (snd (main_lte_link_control cfg en ?s2))"
    using main_lte_link_control_extends [of ?s2 cfg en] by blast
  have "extends t (snd (main cfg en s))"
    using t(3) main_after_link_control [OF assms, of en s] by (rule extends_trans)
  then show ?thesis using t(1,2) by (blast intro: extends_set)
qed

lemma main_reaches_socket:
  assumes "fst (main cfg en s) = Returned"
  shows "Socket_call AF_INET \<in> set (trace (snd (main cfg en s)))"
proof (cases rule: main_cases [of cfg en s])
  case (blocked s3)
  then show ?thesis using assms by simp
next
  case (init_failed s3 e4 s4)
  then show ?thesis using client_init_ret [of cfg en s3] by simp
next
  case (connect_failed s3 s4 e5 s5)
  have "Socket_call AF_INET \<in> set (trace s5)"
    using client_connect_socket_called [of cfg en s4] connect_failed(3) by simp
  then show ?thesis unfolding connect_failed(5) by (simp add: prim_defs)
next
  case (streaming s3 s4 s5)
  have "Socket_call AF_INET \<in> set (trace s5)"
    using client_connect_socket_called [of cfg en s4] streaming(3) by simp
  then show ?thesis unfolding streaming(4) by (simp add: prim_defs)
qed

subsection \<open>What the power-saving configuration logs\<close>

lemma configure_low_power_fst:
  "fst (configure_low_power cfg en s) =
     (if CONFIG_TCP_RAI_ENABLE cfg then rai_ret en else edrx_ret en)"
  by (simp add: configure_low_power_def lte_lc_psm_req_def lte_lc_edrx_req_def
        lte_lc_rai_req_def Let_def)

lemma trace_cond_printk:
  "trace (if c then printk f a t else t) = trace t @ (if c then [Printk f a] else [])"
  by (simp add: prim_defs)

lemma configure_low_power_trace:
  "trace (snd (configure_low_power cfg en s)) =
     trace s @
     [Psm_req (CONFIG_TCP_PSM_ENABLE cfg)] @
     (if psm_ret en \<noteq> 0
      then [Printk ''lte_lc_psm_req, error: %d\<newline>'' [ArgInt (psm_ret en)]] else []) @
     [Edrx_req (CONFIG_TCP_EDRX_ENABLE cfg)] @
     (if edrx_ret en \<noteq> 0
      then [Printk ''lte_lc_edrx_req, error: %d\<newline>'' [ArgInt (edrx_ret en)]] else []) @
     (if CONFIG_TCP_RAI_ENABLE cfg
      then [Rai_req True] @
           (if rai_ret en \<noteq> 0
            then [Printk ''lte_lc_rai_req, error: %d\<newline>'' [ArgInt (rai_ret en)]] else [])
      else [])"
proof (cases "CONFIG_TCP_RAI_ENABLE cfg")
  case True
  then show ?thesis
    unfolding configure_low_power_snd Let_def
    by (simp add: prim_defs)
next
  case False
  then show ?thesis
    unfolding configure_low_power_snd Let_def
    by (simp add: prim_defs)
qed

lemma modem_configure_trace:
  "trace (modem_configure cfg en s) =
     trace s @
     (if CONFIG_LTE_AUTO_INIT_AND_CONNECT cfg then []
      else [Init_and_connect_async] @
           (if init_and_connect_ret en \<noteq> 0
            then [Printk ''Modem configuration, error: %d\<newline>''
                    [ArgInt (init_and_connect_ret en)]]
            else []))"
  by (simp add: modem_configure_def prim_defs Let_def)

lemma main_lte_link_control_trace:
  "\<exists>post.
     trace (snd (main_lte_link_control cfg en s)) =
       trace s @
       [Psm_req (CONFIG_TCP_PSM_ENABLE cfg)] @
       (if psm_ret en \<noteq> 0
        then [Printk ''lte_lc_psm_req, error: %d\<newline>'' [ArgInt (psm_ret en)]] else []) @
       [Edrx_req (CONFIG_TCP_EDRX_ENABLE cfg)] @
       (if edrx_ret en \<noteq> 0
        then [Printk ''lte_lc_edrx_req, error: %d\<newline>'' [ArgInt (edrx_ret en)]] else []) @
       (if CONFIG_TCP_RAI_ENABLE cfg
        then [Rai_req True] @
             (if rai_ret en \<noteq> 0
              then [Printk ''lte_lc_rai_req, error: %d\<newline>'' [ArgInt (rai_ret en)]] else [])
        else []) @
       (if (if CONFIG_TCP_RAI_ENABLE cfg then rai_ret en else edrx_ret en) \<noteq> 0
        then [Printk ''Unable to set low power configuration, error: %d\<newline>''
                [ArgInt (if CONFIG_TCP_RAI_ENABLE cfg then rai_ret en else edrx_ret en)]]
        else []) @
       (if CONFIG_LTE_AUTO_INIT_AND_CONNECT cfg then []
        else [Init_and_connect_async] @
             (if init_and_connect_ret en \<noteq> 0
              then [Printk ''Modem configuration, error: %d\<newline>''
                      [ArgInt (init_and_connect_ret en)]]
              else [])) @
       [Sem_take K_FOREVER] @ post"
proof -
  obtain err s1 where c: "configure_low_power cfg en s = (err, s1)"
    by (cases "configure_low_power cfg en s")
  have err: "err = (if CONFIG_TCP_RAI_ENABLE cfg then rai_ret en else edrx_ret en)"
    using configure_low_power_fst [of cfg en s] c by simp
  note t1 = configure_low_power_trace [of cfg en s, unfolded c snd_conv]
  define s2 where "s2 = (if err \<noteq> 0 then
       printk ''Unable to set low power configuration, error: %d\<newline>'' [ArgInt err] s1
     else s1)"
  define t where "t = emit (Sem_take K_FOREVER) (modem_configure cfg en s2)"
  have t2: "trace s2 = trace s1 @
      (if err \<noteq> 0
       then [Printk ''Unable to set low power configuration, error: %d\<newline>'' [ArgInt err]]
       else [])"
    unfolding s2_def by (rule trace_cond_printk)
  have tt: "trace t = trace (modem_configure cfg en s2) @ [Sem_take K_FOREVER]"
    by (simp add: t_def emit_def)
  have m: "main_lte_link_control cfg en s =
      k_sem_take_forever (lte_handler en)
           (if CONFIG_LTE_AUTO_INIT_AND_CONNECT cfg then [] else lte_events en) t"
    using c by (simp add: main_lte_link_control_def Let_def s2_def t_def)
  have "extends t (snd (main_lte_link_control cfg en s))"
    unfolding m by (rule extends_k_sem_take_forever)
  then obtain post where p: "trace (snd (main_lte_link_control cfg en s)) = trace t @ post"
    unfolding extends_iff by blast
  show ?thesis
    unfolding p tt modem_configure_trace t2 t1 err by (intro exI [of _ post]) simp
qed

lemma main_low_power_trace:
  assumes "CONFIG_LTE_LINK_CONTROL cfg"
  shows "\<exists>post.
     trace (snd (main cfg en init_state)) =
       [Printk ''TCP Client sample has started\<newline>'' [], Work_init] @
       [Psm_req (CONFIG_TCP_PSM_ENABLE cfg)] @
       (if psm_ret en \<noteq> 0
        then [Printk ''lte_lc_psm_req, error: %d\<newline>'' [ArgInt (psm_ret en)]] else []) @
       [Edrx_req (CONFIG_TCP_EDRX_ENABLE cfg)] @
       (if edrx_ret en \<noteq> 0
        then [Printk ''lte_lc_edrx_req, error: %d\<newline>'' [ArgInt (edrx_ret en)]] else []) @
       (if CONFIG_TCP_RAI_ENABLE cfg
        then [Rai_req True] @
             (if rai_ret en \<noteq> 0
              then [Printk ''lte_lc_rai_req, error: %d\<newline>'' [ArgInt (rai_ret en)]] else [])
        else []) @
       (if (if CONFIG_TCP_RAI_ENABLE cfg then rai_ret en else edrx_ret en) \<noteq> 0
        then [Printk ''Unable to set low power configuration, error: %d\<newline>''
                [ArgInt (if CONFIG_TCP_RAI_ENABLE cfg then rai_ret en else edrx_ret en)]]
        else []) @
       (if CONFIG_LTE_AUTO_INIT_AND_CONNECT cfg then []
        else [Init_and_connect_async] @
             (if init_and_connect_ret en \<noteq> 0
              then [Printk ''Modem configuration, error: %d\<newline>''
                      [ArgInt (init_and_connect_ret en)]]
              else [])) @
       [Sem_take K_FOREVER] @ post"
proof -
  let ?s2 = "work_init (printk ''TCP Client sample has started\<newline>'' [] init_state)"
  have s2: "trace ?s2 = [Printk ''TCP Client sample has started\<newline>'' [], Work_init]"
    by (simp add: prim_defs init_state_def)
  obtain post where p: "trace (snd (main_lte_link_control cfg en ?s2)) =
       trace ?s2 @
       [Psm_req (CONFIG_TCP_PSM_ENABLE cfg)] @
       (if psm_ret en \<noteq> 0
        then [Printk ''lte_lc_psm_req, error: %d\<newline>'' [ArgInt (psm_ret en)]] else []) @
       [Edrx_req (CONFIG_TCP_EDRX_ENABLE cfg)] @
       (if edrx_ret en \<noteq> 0
        then [Printk ''lte_lc_edrx_req, error: %d\<newline>'' [ArgInt (edrx_ret en)]] else []) @
       (if CONFIG_TCP_RAI_ENABLE cfg
        then [Rai_req True] @
             (if rai_ret en \<noteq> 0
              then [Printk ''lte_lc_rai_req, error: %d\<newline>'' [ArgInt (rai_ret en)]] else [])
        else []) @
       (if (if CONFIG_TCP_RAI_ENABLE cfg then rai_ret en else edrx_ret en) \<noteq> 0
        then [Printk ''Unable to set low power configuration, error: %d\<newline>''
                [ArgInt (if CONFIG_TCP_RAI_ENABLE cfg then rai_ret en else edrx_ret en)]]
        else []) @
       (if CONFIG_LTE_AUTO_INIT_AND_CONNECT cfg then []
        else [Init_and_connect_async] @
             (if init_and_connect_ret en \<noteq> 0
              then [Printk ''Modem configuration, error: %d\<newline>''
                      [ArgInt (init_and_connect_ret en)]]
              else [])) @
       [Sem_take K_FOREVER] @ post"
    using main_lte_link_control_trace [of cfg en ?s2] by blast
  obtain ev where e: "trace (snd (main cfg en init_state)) =
      trace (snd (main_lte_link_control cfg en ?s2)) @ ev"
    using main_after_link_control [OF assms, of en init_state] unfolding extends_iff by blast
  show ?thesis
    unfolding e p s2 by (intro exI [of _ "post @ ev"]) (simp only: append_assoc)
qed

section \<open>The claims\<close>

text \<open>
  C1, evaluated where it fails. When \<^verbatim>\<open>socket\<close> answers -1, \<open>client_connect\<close> returns 0,
  so \<open>main\<close> returns with the work item submitted with no delay, although no
  descriptor is open and \<open>client_fd\<close> is -1; the firing that follows calls \<^verbatim>\<open>send\<close> on
  descriptor -1. So a failed socket creation does arm the periodic work. (When the
  \<^verbatim>\<open>connect\<close> call fails the work is never submitted and nothing is ever sent: lemma
  \<open>main_connect_call_failure\<close>.)
\<close>

theorem C1_socket_failure_arms_trigger:
  "fst (main cfg0 env_socket_fails init_state) = Returned \<and>
   open_fds (snd (main cfg0 env_socket_fails init_state)) = {} \<and>
   client_fd (snd (main cfg0 env_socket_fails init_state)) = - 1 \<and>
   work_pending (snd (main cfg0 env_socket_fails init_state)) = Some K_NO_WAIT \<and>
   filter is_submit (trace (snd (main cfg0 env_socket_fails init_state))) =
     [Work_submit K_NO_WAIT] \<and>
   filter is_send (trace (system_run cfg0 env_socket_fails)) =
     [Send_call (- 1) (replicate 10 0) 10 0]"
  by (simp add: main_eval_defs prim_defs env_socket_fails_def env0_def cfg0_def
        init_state_def Let_def)

text \<open>
  C2, evaluated where it fails. When \<^verbatim>\<open>socket\<close> answers -1 with \<^verbatim>\<open>errno\<close> 23,
  \<open>client_connect\<close> logs the error number and returns 0, the value of success, with
  no socket created and none connected. When \<^verbatim>\<open>connect\<close> answers -1, it returns that
  -1. (The returned value in general: lemma \<open>client_connect_ret\<close>.)
\<close>

theorem C2_socket_failure_returns_zero:
  "fst (client_connect cfg0 env_socket_fails init_state) = 0 \<and>
   client_fd (snd (client_connect cfg0 env_socket_fails init_state)) = - 1 \<and>
   open_fds (snd (client_connect cfg0 env_socket_fails init_state)) = {} \<and>
   trace (snd (client_connect cfg0 env_socket_fails init_state)) =
     [Socket_call AF_INET, Printk ''Failed to create TCP socket: %d\<newline>'' [ArgInt 23]] \<and>
   fst (client_connect cfg0 env_connect_fails init_state) = - 1"
  by (simp add: client_connect_def client_disconnect_def prim_defs env_socket_fails_def
        env_connect_fails_def env0_def cfg0_def init_state_def Let_def)

text \<open>
  C3. When \<^verbatim>\<open>send\<close> returns a negative result on a firing, the work function submits
  nothing (the work item keeps no outstanding submission), and calls \<^verbatim>\<open>close\<close> on
  \<open>client_fd\<close> before it returns, after which \<open>client_fd\<close> is not an open descriptor.
  The work queue then never calls the handler again: whatever answers the
  environment holds for further firings (\<open>rest\<close>) are never used.
\<close>

theorem C3_send_failure_stops_and_closes:
  assumes "fst r < 0"
  shows "filter is_submit (new_events s (server_transmission_work_fn cfg r s)) = [] \<and>
         work_pending (server_transmission_work_fn cfg r s) = work_pending s \<and>
         filter is_close (new_events s (server_transmission_work_fn cfg r s)) =
           [Close_call (client_fd s)] \<and>
         client_fd s \<notin> open_fds (server_transmission_work_fn cfg r s) \<and>
         (work_pending s \<noteq> None \<longrightarrow>
            work_pending (work_q_run cfg [r] s) = None \<and>
            work_q_run cfg (r # rest) s = work_q_run cfg [r] s)"
proof -
  have a: "filter is_submit (new_events s (server_transmission_work_fn cfg r s)) = [] \<and>
         work_pending (server_transmission_work_fn cfg r s) = work_pending s \<and>
         filter is_close (new_events s (server_transmission_work_fn cfg r s)) =
           [Close_call (client_fd s)] \<and>
         client_fd s \<notin> open_fds (server_transmission_work_fn cfg r s)"
    using assms by (simp add: work_fn_new_events work_fn_open_fds work_fn_pending)
  have b: "work_pending (work_q_run cfg [r] s) = None \<and>
           work_q_run cfg (r # rest) s = work_q_run cfg [r] s" if "work_pending s \<noteq> None"
  proof -
    from that obtain d where d: "work_pending s = Some d" by blast
    let ?s' = "server_transmission_work_fn cfg r (emit Work_fired (s\<lparr>work_pending := None\<rparr>))"
    have p: "work_pending ?s' = None"
      using assms by (simp add: work_fn_pending fired_fields)
    show ?thesis
      using d p by (simp add: work_q_run_idle)
  qed
  show ?thesis using a b by blast
qed

theorem C3_send_failure_witness:
  "fst (- 1 :: int, 104 :: int) < 0 \<and>
   filter is_submit (new_events (snd (main cfg0 env0 init_state))
      (server_transmission_work_fn cfg0 (- 1, 104) (snd (main cfg0 env0 init_state)))) = [] \<and>
   filter is_close (new_events (snd (main cfg0 env0 init_state))
      (server_transmission_work_fn cfg0 (- 1, 104) (snd (main cfg0 env0 init_state)))) =
     [Close_call 3] \<and>
   3 \<notin> open_fds (server_transmission_work_fn cfg0 (- 1, 104) (snd (main cfg0 env0 init_state))) \<and>
   work_pending (snd (main cfg0 env0 init_state)) \<noteq> None \<and>
   work_pending (work_q_run cfg0 [(- 1, 104)] (snd (main cfg0 env0 init_state))) = None \<and>
   work_q_run cfg0 [(- 1, 104), (10, 0)] (snd (main cfg0 env0 init_state)) =
     work_q_run cfg0 [(- 1, 104)] (snd (main cfg0 env0 init_state))"
proof -
  have fd: "client_fd (snd (main cfg0 env0 init_state)) = 3"
    by (simp add: main_def main_lte_link_control_def configure_low_power_def
          modem_configure_def client_init_def client_connect_def prim_defs
          cfg0_def env0_def init_state_def Let_def)
  have p: "work_pending (snd (main cfg0 env0 init_state)) \<noteq> None"
    by (simp add: main_def main_lte_link_control_def configure_low_power_def
          modem_configure_def client_init_def client_connect_def prim_defs
          cfg0_def env0_def init_state_def Let_def)
  show ?thesis
    using C3_send_failure_stops_and_closes
      [of "(- 1, 104)" "snd (main cfg0 env0 init_state)" cfg0 "[(10, 0)]"] fd p
    by simp
qed

text \<open>
  C4. For every configured payload size \<open>P > 0\<close>, a firing of the transmission work
  calls \<^verbatim>\<open>send\<close> exactly once, on \<open>client_fd\<close>, with a buffer of exactly \<open>P\<close> bytes that
  are all zero, and with length \<open>P\<close>. In the whole run (main, then any number of
  firings) every \<^verbatim>\<open>send\<close> is this call on the descriptor that \<^verbatim>\<open>socket\<close> returned.
\<close>

theorem C4_send_zero_payload:
  assumes "0 < CONFIG_TCP_DATA_UPLOAD_SIZE_BYTES cfg"
  shows "filter is_send (new_events s (server_transmission_work_fn cfg r s)) =
           [Send_call (client_fd s) (replicate (CONFIG_TCP_DATA_UPLOAD_SIZE_BYTES cfg) 0)
              (CONFIG_TCP_DATA_UPLOAD_SIZE_BYTES cfg) 0] \<and>
         list_all (\<lambda>e. is_send e \<longrightarrow>
             e = Send_call (fst (socket_ret en))
                   (replicate (CONFIG_TCP_DATA_UPLOAD_SIZE_BYTES cfg) 0)
                   (CONFIG_TCP_DATA_UPLOAD_SIZE_BYTES cfg) 0)
           (trace (system_run cfg en))"
  using system_run_sends [of en cfg] by (simp add: work_fn_new_events)

theorem C4_send_zero_payload_witness:
  "0 < CONFIG_TCP_DATA_UPLOAD_SIZE_BYTES cfg0 \<and>
   filter is_send (new_events init_state (server_transmission_work_fn cfg0 (10, 0) init_state)) =
     [Send_call 0 [0, 0, 0, 0, 0, 0, 0, 0, 0, 0] 10 0] \<and>
   list_all (\<lambda>e. is_send e \<longrightarrow> e = Send_call 3 [0, 0, 0, 0, 0, 0, 0, 0, 0, 0] 10 0)
     (trace (system_run cfg0 env0))"
proof -
  have p: "0 < CONFIG_TCP_DATA_UPLOAD_SIZE_BYTES cfg0" by (simp add: cfg0_def)
  have r: "replicate (CONFIG_TCP_DATA_UPLOAD_SIZE_BYTES cfg0) (0 :: 8 word) =
           [0, 0, 0, 0, 0, 0, 0, 0, 0, 0]"
    by (simp add: cfg0_def numeral_eq_Suc)
  show ?thesis
    using C4_send_zero_payload [OF p, of init_state "(10, 0)" env0] p
    unfolding r by (simp add: cfg0_def env0_def init_state_def)
qed

text \<open>
  C5. Within one firing nothing is submitted before the call of \<^verbatim>\<open>send\<close>; after it
  the work item is submitted once, with the configured interval, exactly when
  \<^verbatim>\<open>send\<close> returned a non-negative result, and not at all otherwise. Over the whole
  run the work item never has two outstanding submissions: each submission happens
  when none is outstanding, and each firing takes the single outstanding one.
\<close>

theorem C5_rearm_only_after_send_returns:
  "(\<exists>pre post.
      new_events s (server_transmission_work_fn cfg r s) =
        pre @ [Send_call (client_fd s) (replicate (CONFIG_TCP_DATA_UPLOAD_SIZE_BYTES cfg) 0)
                 (CONFIG_TCP_DATA_UPLOAD_SIZE_BYTES cfg) 0] @ post \<and>
      filter is_submit pre = [] \<and> filter is_send pre = [] \<and> filter is_send post = [] \<and>
      filter is_submit post =
        (if 0 \<le> fst r
         then [Work_submit (K_SECONDS (CONFIG_TCP_DATA_UPLOAD_FREQUENCY_SECONDS cfg))]
         else [])) \<and>
   single_outstanding 0 (trace (system_run cfg en))"
proof -
  let ?pre = "[Printk ''Transmitting TCP/IP payload of %d bytes to the ''
        [ArgInt (int (CONFIG_TCP_DATA_UPLOAD_SIZE_BYTES cfg) + 28)],
      Printk ''IP address %s, port number %d\<newline>''
        [ArgStr (CONFIG_TCP_SERVER_ADDRESS_STATIC cfg), ArgInt (CONFIG_TCP_SERVER_PORT cfg)]]"
  let ?post = "if fst r < 0
      then [Printk ''Failed to transmit TCP packet, %d\<newline>'' [ArgInt (snd r)],
            Close_call (client_fd s)]
      else [Work_submit (K_SECONDS (CONFIG_TCP_DATA_UPLOAD_FREQUENCY_SECONDS cfg))]"
  have "new_events s (server_transmission_work_fn cfg r s) =
        ?pre @ [Send_call (client_fd s) (replicate (CONFIG_TCP_DATA_UPLOAD_SIZE_BYTES cfg) 0)
                 (CONFIG_TCP_DATA_UPLOAD_SIZE_BYTES cfg) 0] @ ?post \<and>
      filter is_submit ?pre = [] \<and> filter is_send ?pre = [] \<and> filter is_send ?post = [] \<and>
      filter is_submit ?post =
        (if 0 \<le> fst r
         then [Work_submit (K_SECONDS (CONFIG_TCP_DATA_UPLOAD_FREQUENCY_SECONDS cfg))]
         else [])"
    by (simp add: work_fn_new_events)
  then show ?thesis using system_run_single [of cfg en] by blast
qed

theorem C5_rearm_witness:
  "(\<exists>pre post.
      new_events init_state (server_transmission_work_fn cfg0 (10, 0) init_state) =
        pre @ [Send_call 0 (replicate 10 0) 10 0] @ post \<and>
      filter is_submit pre = [] \<and> filter is_send pre = [] \<and> filter is_send post = [] \<and>
      filter is_submit post = [Work_submit (K_SECONDS 60)]) \<and>
   single_outstanding 0 (trace (system_run cfg0 env0))"
  using C5_rearm_only_after_send_returns [of init_state cfg0 "(10, 0)" env0]
  by (simp add: cfg0_def init_state_def)

text \<open>
  C6. The handler gives the semaphore exactly on a registration-status event whose
  status is registered-home or registered-roaming. On every other event (PSM, eDRX,
  RRC and cell updates, any other registration status, any other event kind) it
  changes nothing of the state but the trace, to which it adds log lines only. So
  after any sequence of events the count of the semaphore is 1 if the sequence holds
  such a registration event and is unchanged otherwise; \<^verbatim>\<open>k_sem_take\<close> returns exactly
  when the count was already positive or such an event is delivered; and \<open>main\<close>,
  with link control enabled and the handler registered, gets past the wait exactly
  when such an event is among those delivered.
\<close>

theorem C6_semaphore_given_on_registration_only:
  "(Sem_give \<in> set (new_events s (lte_handler en e s))) = registered_evt e \<and>
   lte_connected (lte_handler en e s) = (if registered_evt e then 1 else lte_connected s) \<and>
   (\<not> registered_evt e \<longrightarrow>
      (lte_handler en e s)\<lparr>trace := trace s\<rparr> = s \<and>
      list_all is_printk (new_events s (lte_handler en e s))) \<and>
   lte_connected (fold (lte_handler en) evs s) =
     (if \<exists>e \<in> set evs. registered_evt e then 1 else lte_connected s) \<and>
   fst (k_sem_take_forever (lte_handler en) evs s) =
     (0 < lte_connected s \<or> (\<exists>e \<in> set evs. registered_evt e)) \<and>
   (CONFIG_LTE_LINK_CONTROL cfg \<and> \<not> CONFIG_LTE_AUTO_INIT_AND_CONNECT cfg \<longrightarrow>
      (fst (main cfg en init_state) = Returned) = (\<exists>e \<in> set (lte_events en). registered_evt e))"
  using lte_handler_gives [where s = s and en = en and e = e]
    lte_handler_count [where s = s and en = en and e = e]
    lte_handler_other [where s = s and en = en and e = e]
    fold_lte_handler_count [where s = s and en = en and evs = evs]
    k_sem_take_forever_wakes [where s = s and en = en and evs = evs]
    main_returns [where cfg = cfg and en = en]
  by simp

theorem C6_semaphore_witness:
  "Sem_give \<in> set (new_events init_state
      (lte_handler env0 (LTE_LC_EVT_NW_REG_STATUS LTE_LC_NW_REG_REGISTERED_ROAMING) init_state)) \<and>
   lte_connected (lte_handler env0 (LTE_LC_EVT_NW_REG_STATUS LTE_LC_NW_REG_REGISTERED_ROAMING)
      init_state) = 1 \<and>
   lte_connected (fold (lte_handler env0) (lte_events env0) init_state) = 1 \<and>
   fst (k_sem_take_forever (lte_handler env0) (lte_events env0) init_state) \<and>
   fst (main cfg0 env0 init_state) = Returned \<and>
   (lte_handler env0 (LTE_LC_EVT_CELL_UPDATE 7 9) init_state)\<lparr>trace := trace init_state\<rparr>
     = init_state \<and>
   list_all is_printk (new_events init_state
     (lte_handler env0 (LTE_LC_EVT_CELL_UPDATE 7 9) init_state)) \<and>
   \<not> fst (k_sem_take_forever (lte_handler env0)
          [LTE_LC_EVT_NW_REG_STATUS LTE_LC_NW_REG_SEARCHING, LTE_LC_EVT_CELL_UPDATE 7 9]
          init_state)"
proof -
  have a: "Sem_give \<in> set (new_events init_state
      (lte_handler env0 (LTE_LC_EVT_NW_REG_STATUS LTE_LC_NW_REG_REGISTERED_ROAMING) init_state)) \<and>
   lte_connected (lte_handler env0 (LTE_LC_EVT_NW_REG_STATUS LTE_LC_NW_REG_REGISTERED_ROAMING)
      init_state) = 1 \<and>
   lte_connected (fold (lte_handler env0) (lte_events env0) init_state) = 1 \<and>
   fst (k_sem_take_forever (lte_handler env0) (lte_events env0) init_state) \<and>
   fst (main cfg0 env0 init_state) = Returned"
    using C6_semaphore_given_on_registration_only
      [where s = init_state and en = env0
         and e = "LTE_LC_EVT_NW_REG_STATUS LTE_LC_NW_REG_REGISTERED_ROAMING"
         and evs = "lte_events env0" and cfg = cfg0]
    by (simp add: env0_def cfg0_def)
  have b: "(lte_handler env0 (LTE_LC_EVT_CELL_UPDATE 7 9) init_state)\<lparr>trace := trace init_state\<rparr>
     = init_state \<and>
   list_all is_printk (new_events init_state
     (lte_handler env0 (LTE_LC_EVT_CELL_UPDATE 7 9) init_state)) \<and>
   \<not> fst (k_sem_take_forever (lte_handler env0)
          [LTE_LC_EVT_NW_REG_STATUS LTE_LC_NW_REG_SEARCHING, LTE_LC_EVT_CELL_UPDATE 7 9]
          init_state)"
    using C6_semaphore_given_on_registration_only
      [where s = init_state and en = env0 and e = "LTE_LC_EVT_CELL_UPDATE 7 9"
         and evs = "[LTE_LC_EVT_NW_REG_STATUS LTE_LC_NW_REG_SEARCHING, LTE_LC_EVT_CELL_UPDATE 7 9]"
         and cfg = cfg0]
    by (simp add: init_state_def)
  show ?thesis using a b by blast
qed

text \<open>
  C7. A failing power-saving request is logged and nothing more. \<open>configure_low_power\<close>
  makes the PSM and eDRX requests, and the RAI request when it is enabled, each
  followed by its log line "lte_lc_..._req, error: %d" with the returned code exactly
  when the request returned non-zero; it returns the result of the last request
  made. With link control enabled, the trace of \<open>main\<close> starts with these calls and
  log lines, then logs "Unable to set low power configuration" exactly when that
  returned value is non-zero, then makes the modem configuration call (when
  configured) and reaches the wait on the semaphore. Whatever the three requests
  answer, \<open>main\<close> ends the same way (returned or asleep in the wait) and in the same
  state but for log lines, and it goes on to the connection attempt (the \<^verbatim>\<open>socket\<close>
  call) exactly when a registration event ends the wait.
\<close>

theorem C7_low_power_failures_not_fatal:
  assumes "CONFIG_LTE_LINK_CONTROL cfg"
  shows "fst (main cfg (en\<lparr>psm_ret := a, edrx_ret := b, rai_ret := c\<rparr>) init_state) =
           fst (main cfg en init_state) \<and>
         erase_logs (snd (main cfg (en\<lparr>psm_ret := a, edrx_ret := b, rai_ret := c\<rparr>) init_state)) =
           erase_logs (snd (main cfg en init_state)) \<and>
         Sem_take K_FOREVER \<in> set (trace (snd (main cfg en init_state))) \<and>
         (\<not> CONFIG_LTE_AUTO_INIT_AND_CONNECT cfg \<longrightarrow>
            Init_and_connect_async \<in> set (trace (snd (main cfg en init_state)))) \<and>
         (fst (main cfg en init_state) = Returned) =
           (\<not> CONFIG_LTE_AUTO_INIT_AND_CONNECT cfg \<and>
            (\<exists>e \<in> set (lte_events en). registered_evt e)) \<and>
         (fst (main cfg en init_state) = Returned \<longrightarrow>
            Socket_call AF_INET \<in> set (trace (snd (main cfg en init_state)))) \<and>
         (psm_ret en \<noteq> 0 \<longrightarrow>
            Printk ''lte_lc_psm_req, error: %d\<newline>'' [ArgInt (psm_ret en)]
              \<in> set (trace (snd (main cfg en init_state)))) \<and>
         (edrx_ret en \<noteq> 0 \<longrightarrow>
            Printk ''lte_lc_edrx_req, error: %d\<newline>'' [ArgInt (edrx_ret en)]
              \<in> set (trace (snd (main cfg en init_state)))) \<and>
         (CONFIG_TCP_RAI_ENABLE cfg \<and> rai_ret en \<noteq> 0 \<longrightarrow>
            Printk ''lte_lc_rai_req, error: %d\<newline>'' [ArgInt (rai_ret en)]
              \<in> set (trace (snd (main cfg en init_state)))) \<and>
         fst (configure_low_power cfg en s) =
           (if CONFIG_TCP_RAI_ENABLE cfg then rai_ret en else edrx_ret en) \<and>
         new_events s (snd (configure_low_power cfg en s)) =
           [Psm_req (CONFIG_TCP_PSM_ENABLE cfg)] @
           (if psm_ret en \<noteq> 0
            then [Printk ''lte_lc_psm_req, error: %d\<newline>'' [ArgInt (psm_ret en)]] else []) @
           [Edrx_req (CONFIG_TCP_EDRX_ENABLE cfg)] @
           (if edrx_ret en \<noteq> 0
            then [Printk ''lte_lc_edrx_req, error: %d\<newline>'' [ArgInt (edrx_ret en)]] else []) @
           (if CONFIG_TCP_RAI_ENABLE cfg
            then [Rai_req True] @
                 (if rai_ret en \<noteq> 0
                  then [Printk ''lte_lc_rai_req, error: %d\<newline>'' [ArgInt (rai_ret en)]]
                  else [])
            else []) \<and>
         (\<exists>post.
            trace (snd (main cfg en init_state)) =
              [Printk ''TCP Client sample has started\<newline>'' [], Work_init] @
              new_events
                (work_init (printk ''TCP Client sample has started\<newline>'' [] init_state))
                (snd (configure_low_power cfg en
                  (work_init (printk ''TCP Client sample has started\<newline>'' [] init_state)))) @
              (if fst (configure_low_power cfg en
                         (work_init (printk ''TCP Client sample has started\<newline>'' [] init_state))) \<noteq> 0
               then [Printk ''Unable to set low power configuration, error: %d\<newline>''
                       [ArgInt (fst (configure_low_power cfg en
                         (work_init (printk ''TCP Client sample has started\<newline>'' [] init_state))))]]
               else []) @
              (if CONFIG_LTE_AUTO_INIT_AND_CONNECT cfg then []
               else [Init_and_connect_async] @
                    (if init_and_connect_ret en \<noteq> 0
                     then [Printk ''Modem configuration, error: %d\<newline>''
                             [ArgInt (init_and_connect_ret en)]]
                     else [])) @
              [Sem_take K_FOREVER] @ post)"
proof -
  have n: "new_events s (snd (configure_low_power cfg en s)) =
           [Psm_req (CONFIG_TCP_PSM_ENABLE cfg)] @
           (if psm_ret en \<noteq> 0
            then [Printk ''lte_lc_psm_req, error: %d\<newline>'' [ArgInt (psm_ret en)]] else []) @
           [Edrx_req (CONFIG_TCP_EDRX_ENABLE cfg)] @
           (if edrx_ret en \<noteq> 0
            then [Printk ''lte_lc_edrx_req, error: %d\<newline>'' [ArgInt (edrx_ret en)]] else []) @
           (if CONFIG_TCP_RAI_ENABLE cfg
            then [Rai_req True] @
                 (if rai_ret en \<noteq> 0
                  then [Printk ''lte_lc_rai_req, error: %d\<newline>'' [ArgInt (rai_ret en)]]
                  else [])
            else [])"
    by (rule new_events_append) (rule configure_low_power_trace)
  note f = configure_low_power_fst [of cfg en s]
  have n2: "new_events (work_init (printk ''TCP Client sample has started\<newline>'' [] init_state))
             (snd (configure_low_power cfg en
                (work_init (printk ''TCP Client sample has started\<newline>'' [] init_state)))) =
           [Psm_req (CONFIG_TCP_PSM_ENABLE cfg)] @
           (if psm_ret en \<noteq> 0
            then [Printk ''lte_lc_psm_req, error: %d\<newline>'' [ArgInt (psm_ret en)]] else []) @
           [Edrx_req (CONFIG_TCP_EDRX_ENABLE cfg)] @
           (if edrx_ret en \<noteq> 0
            then [Printk ''lte_lc_edrx_req, error: %d\<newline>'' [ArgInt (edrx_ret en)]] else []) @
           (if CONFIG_TCP_RAI_ENABLE cfg
            then [Rai_req True] @
                 (if rai_ret en \<noteq> 0
                  then [Printk ''lte_lc_rai_req, error: %d\<newline>'' [ArgInt (rai_ret en)]]
                  else [])
            else [])"
    by (rule new_events_append) (rule configure_low_power_trace)
  note f2 = configure_low_power_fst
    [of cfg en "work_init (printk ''TCP Client sample has started\<newline>'' [] init_state)"]
  obtain post where p: "trace (snd (main cfg en init_state)) =
              [Printk ''TCP Client sample has started\<newline>'' [], Work_init] @
              new_events
                (work_init (printk ''TCP Client sample has started\<newline>'' [] init_state))
                (snd (configure_low_power cfg en
                  (work_init (printk ''TCP Client sample has started\<newline>'' [] init_state)))) @
              (if fst (configure_low_power cfg en
                         (work_init (printk ''TCP Client sample has started\<newline>'' [] init_state))) \<noteq> 0
               then [Printk ''Unable to set low power configuration, error: %d\<newline>''
                       [ArgInt (fst (configure_low_power cfg en
                         (work_init (printk ''TCP Client sample has started\<newline>'' [] init_state))))]]
               else []) @
              (if CONFIG_LTE_AUTO_INIT_AND_CONNECT cfg then []
               else [Init_and_connect_async] @
                    (if init_and_connect_ret en \<noteq> 0
                     then [Printk ''Modem configuration, error: %d\<newline>''
                             [ArgInt (init_and_connect_ret en)]]
                     else [])) @
              [Sem_take K_FOREVER] @ post"
    using main_low_power_trace [OF assms, of en] unfolding n2 f2
    by (auto simp only: append_assoc)
  have logs:
    "psm_ret en \<noteq> 0 \<longrightarrow>
       Printk ''lte_lc_psm_req, error: %d\<newline>'' [ArgInt (psm_ret en)]
         \<in> set (trace (snd (main cfg en init_state)))"
    "edrx_ret en \<noteq> 0 \<longrightarrow>
       Printk ''lte_lc_edrx_req, error: %d\<newline>'' [ArgInt (edrx_ret en)]
         \<in> set (trace (snd (main cfg en init_state)))"
    "CONFIG_TCP_RAI_ENABLE cfg \<and> rai_ret en \<noteq> 0 \<longrightarrow>
       Printk ''lte_lc_rai_req, error: %d\<newline>'' [ArgInt (rai_ret en)]
         \<in> set (trace (snd (main cfg en init_state)))"
    unfolding p n2 by simp_all
  have old: "fst (main cfg (en\<lparr>psm_ret := a, edrx_ret := b, rai_ret := c\<rparr>) init_state) =
           fst (main cfg en init_state) \<and>
         erase_logs (snd (main cfg (en\<lparr>psm_ret := a, edrx_ret := b, rai_ret := c\<rparr>) init_state)) =
           erase_logs (snd (main cfg en init_state)) \<and>
         Sem_take K_FOREVER \<in> set (trace (snd (main cfg en init_state))) \<and>
         (\<not> CONFIG_LTE_AUTO_INIT_AND_CONNECT cfg \<longrightarrow>
            Init_and_connect_async \<in> set (trace (snd (main cfg en init_state)))) \<and>
         (fst (main cfg en init_state) = Returned) =
           (\<not> CONFIG_LTE_AUTO_INIT_AND_CONNECT cfg \<and>
            (\<exists>e \<in> set (lte_events en). registered_evt e)) \<and>
         (fst (main cfg en init_state) = Returned \<longrightarrow>
            Socket_call AF_INET \<in> set (trace (snd (main cfg en init_state))))"
    using main_low_power_rets [where cfg = cfg and en = en and a = a and b = b and c = c
        and s = init_state]
      main_reaches_wait [OF assms, of en init_state] main_returns [of cfg en] assms
      main_reaches_socket [of cfg en init_state]
    by simp
  show ?thesis
    using old logs f n p by blast
qed

theorem C7_low_power_failures_witness:
  "CONFIG_LTE_LINK_CONTROL cfg0 \<and>
   fst (main cfg0 (env0\<lparr>psm_ret := - 5, edrx_ret := - 22, rai_ret := - 1\<rparr>) init_state) = Returned \<and>
   erase_logs (snd (main cfg0 (env0\<lparr>psm_ret := - 5, edrx_ret := - 22, rai_ret := - 1\<rparr>) init_state)) =
     erase_logs (snd (main cfg0 env0 init_state)) \<and>
   Sem_take K_FOREVER \<in> set (trace (snd (main cfg0 env0 init_state))) \<and>
   Init_and_connect_async \<in> set (trace (snd (main cfg0 env0 init_state))) \<and>
   Socket_call AF_INET \<in> set (trace (snd (main cfg0 env0 init_state))) \<and>
   Printk ''lte_lc_psm_req, error: %d\<newline>'' [ArgInt (- 5)]
     \<in> set (trace (snd (main cfg0 (env0\<lparr>psm_ret := - 5, edrx_ret := - 22, rai_ret := - 1\<rparr>)
                           init_state))) \<and>
   Printk ''lte_lc_edrx_req, error: %d\<newline>'' [ArgInt (- 22)]
     \<in> set (trace (snd (main cfg0 (env0\<lparr>psm_ret := - 5, edrx_ret := - 22, rai_ret := - 1\<rparr>)
                           init_state))) \<and>
   fst (configure_low_power cfg0 (env0\<lparr>psm_ret := - 5, edrx_ret := - 22, rai_ret := - 1\<rparr>)
          init_state) = - 22 \<and>
   new_events init_state
     (snd (configure_low_power cfg0 (env0\<lparr>psm_ret := - 5, edrx_ret := - 22, rai_ret := - 1\<rparr>)
             init_state)) =
     [Psm_req True, Printk ''lte_lc_psm_req, error: %d\<newline>'' [ArgInt (- 5)],
      Edrx_req False, Printk ''lte_lc_edrx_req, error: %d\<newline>'' [ArgInt (- 22)]]"
proof -
  have l: "CONFIG_LTE_LINK_CONTROL cfg0" by (simp add: cfg0_def)
  have a: "fst (main cfg0 (env0\<lparr>psm_ret := - 5, edrx_ret := - 22, rai_ret := - 1\<rparr>) init_state) =
             fst (main cfg0 env0 init_state) \<and>
           erase_logs (snd (main cfg0 (env0\<lparr>psm_ret := - 5, edrx_ret := - 22, rai_ret := - 1\<rparr>)
                              init_state)) =
             erase_logs (snd (main cfg0 env0 init_state)) \<and>
           fst (main cfg0 env0 init_state) = Returned \<and>
           Sem_take K_FOREVER \<in> set (trace (snd (main cfg0 env0 init_state))) \<and>
           Init_and_connect_async \<in> set (trace (snd (main cfg0 env0 init_state))) \<and>
           Socket_call AF_INET \<in> set (trace (snd (main cfg0 env0 init_state)))"
    using C7_low_power_failures_not_fatal [OF l, where en = env0 and a = "- 5" and b = "- 22" and c = "- 1"] l
    by (simp add: cfg0_def env0_def)
  have b: "Printk ''lte_lc_psm_req, error: %d\<newline>'' [ArgInt (- 5)]
     \<in> set (trace (snd (main cfg0 (env0\<lparr>psm_ret := - 5, edrx_ret := - 22, rai_ret := - 1\<rparr>)
                           init_state))) \<and>
   Printk ''lte_lc_edrx_req, error: %d\<newline>'' [ArgInt (- 22)]
     \<in> set (trace (snd (main cfg0 (env0\<lparr>psm_ret := - 5, edrx_ret := - 22, rai_ret := - 1\<rparr>)
                           init_state))) \<and>
   fst (configure_low_power cfg0 (env0\<lparr>psm_ret := - 5, edrx_ret := - 22, rai_ret := - 1\<rparr>)
          init_state) = - 22 \<and>
   new_events init_state
     (snd (configure_low_power cfg0 (env0\<lparr>psm_ret := - 5, edrx_ret := - 22, rai_ret := - 1\<rparr>)
             init_state)) =
     [Psm_req True, Printk ''lte_lc_psm_req, error: %d\<newline>'' [ArgInt (- 5)],
      Edrx_req False, Printk ''lte_lc_edrx_req, error: %d\<newline>'' [ArgInt (- 22)]]"
    using C7_low_power_failures_not_fatal [OF l, where en = "env0\<lparr>psm_ret := - 5, edrx_ret := - 22, rai_ret := - 1\<rparr>"
                 and a = 0 and b = 0 and c = 0 and s = init_state]
    by (simp add: cfg0_def)
  show ?thesis using l a b by simp
qed

text \<open>
  C8. \<open>client_disconnect\<close> returns nothing to its caller (the result of \<^verbatim>\<open>close\<close> is
  discarded), and calling it twice in succession from any state leaves the session
  as one call does: the same \<open>client_fd\<close>, the same set of open descriptors (the one
  of the start without \<open>client_fd\<close>), and every other static unchanged. The second
  call only repeats \<^verbatim>\<open>close\<close> on the released descriptor, which the socket layer
  answers with \<^verbatim>\<open>EBADF\<close>.
\<close>

theorem C8_client_disconnect_idempotent:
  "client_fd (client_disconnect (client_disconnect s)) = client_fd (client_disconnect s) \<and>
   open_fds (client_disconnect (client_disconnect s)) = open_fds (client_disconnect s) \<and>
   host_addr (client_disconnect (client_disconnect s)) = host_addr (client_disconnect s) \<and>
   lte_connected (client_disconnect (client_disconnect s)) = lte_connected (client_disconnect s) \<and>
   work_handler_set (client_disconnect (client_disconnect s)) =
     work_handler_set (client_disconnect s) \<and>
   work_pending (client_disconnect (client_disconnect s)) = work_pending (client_disconnect s) \<and>
   open_fds (client_disconnect s) = open_fds s - {client_fd s} \<and>
   client_fd (client_disconnect s) = client_fd s \<and>
   new_events (client_disconnect s) (client_disconnect (client_disconnect s)) =
     [Close_call (client_fd s)] \<and>
   errno (client_disconnect (client_disconnect s)) = EBADF"
  by (simp add: client_disconnect_def new_events_def prim_defs Let_def)

theorem C8_client_disconnect_witness:
  "open_fds (client_disconnect (client_disconnect (init_state\<lparr>client_fd := 3, open_fds := {3, 4}\<rparr>)))
     = {4} \<and>
   open_fds (client_disconnect (init_state\<lparr>client_fd := 3, open_fds := {3, 4}\<rparr>)) = {4} \<and>
   open_fds (client_disconnect (client_disconnect (init_state\<lparr>client_fd := 3, open_fds := {4}\<rparr>)))
     = {4}"
  using C8_client_disconnect_idempotent [of "init_state\<lparr>client_fd := 3, open_fds := {3, 4}\<rparr>"]
    C8_client_disconnect_idempotent [of "init_state\<lparr>client_fd := 3, open_fds := {4}\<rparr>"]
  by (simp add: init_state_def)

text \<open>
  C9. \<open>client_init\<close> returns 0 from every state, for every configuration and whatever
  \<^verbatim>\<open>inet_pton\<close> answers (its result is dropped), and no run of \<open>main\<close> logs
  "Not able to initialize TCP server connection": that branch is never taken.
\<close>

theorem C9_client_init_never_fails:
  "fst (client_init cfg en s) = 0 \<and>
   init_failure_msg \<notin> set (trace (snd (main cfg en init_state)))"
proof -
  have "init_failure_msg \<notin> set (trace init_state)" by (simp add: init_state_def)
  then show ?thesis
    using extends_not_logged [OF extends_main [of init_state cfg en]] client_init_ret [of cfg en s]
    by simp
qed

theorem C9_client_init_witness:
  "fst (client_init cfg0 (env0\<lparr>inet_pton4 := (\<lambda>t. None)\<rparr>) init_state) = 0 \<and>
   Printk ''Not able to initialize TCP server connection\<newline>'' [] \<notin>
     set (trace (snd (main cfg0 (env0\<lparr>inet_pton4 := (\<lambda>t. None)\<rparr>) init_state)))"
  using C9_client_init_never_fails [of cfg0 "env0\<lparr>inet_pton4 := (\<lambda>t. None)\<rparr>" init_state]
  by (simp add: init_failure_msg_def)

text \<open>
  C10. A partial send is treated as full success: for every result \<open>r\<close> of \<^verbatim>\<open>send\<close> with
  \<open>0 \<le> r\<close> and \<open>r\<close> below the payload size, the work function closes nothing (the set of
  open descriptors is unchanged) and submits the work item again with the configured
  interval. It calls \<^verbatim>\<open>close\<close>, and submits nothing, exactly when the result is
  strictly negative.
\<close>

theorem C10_partial_send_counts_as_success:
  "(0 \<le> fst r \<and> fst r < int (CONFIG_TCP_DATA_UPLOAD_SIZE_BYTES cfg) \<longrightarrow>
      filter is_close (new_events s (server_transmission_work_fn cfg r s)) = [] \<and>
      open_fds (server_transmission_work_fn cfg r s) = open_fds s \<and>
      filter is_submit (new_events s (server_transmission_work_fn cfg r s)) =
        [Work_submit (K_SECONDS (CONFIG_TCP_DATA_UPLOAD_FREQUENCY_SECONDS cfg))] \<and>
      work_pending (server_transmission_work_fn cfg r s) =
        Some (K_SECONDS (CONFIG_TCP_DATA_UPLOAD_FREQUENCY_SECONDS cfg))) \<and>
   ((filter is_close (new_events s (server_transmission_work_fn cfg r s)) \<noteq> []) = (fst r < 0)) \<and>
   ((filter is_submit (new_events s (server_transmission_work_fn cfg r s)) = []) = (fst r < 0))"
  by (simp add: work_fn_new_events work_fn_open_fds work_fn_pending)

theorem C10_partial_send_witness:
  "(0::int) \<le> 3 \<and> (3::int) < 10 \<and>
   filter is_close (new_events init_state (server_transmission_work_fn cfg0 (3, 0) init_state)) = [] \<and>
   open_fds (server_transmission_work_fn cfg0 (3, 0) init_state) = open_fds init_state \<and>
   filter is_submit (new_events init_state (server_transmission_work_fn cfg0 (3, 0) init_state)) =
     [Work_submit (K_SECONDS 60)] \<and>
   work_pending (server_transmission_work_fn cfg0 (3, 0) init_state) = Some (K_SECONDS 60)"
  using C10_partial_send_counts_as_success [of "(3, 0)" cfg0 init_state]
  by (simp add: cfg0_def)

end
